theory Spec2Isabelle
  imports Complex_Main
begin

section \<open>JavaScript primitives used by the widget\<close>

text \<open>
  The widget (\<^verbatim>\<open>src/index.tsx\<close>) only ever handles integral numbers: clock readings in
  milliseconds, second counts and parsed input fields. They are modelled as \<^typ>\<open>int\<close>;
  \<open>NaN\<close> is modelled as \<^const>\<open>None\<close> where it can arise (\<^verbatim>\<open>parseInt\<close>).
\<close>

definition digitChar :: "nat \<Rightarrow> char" where
  "digitChar d = ''0123456789'' ! d"

text \<open>\<^verbatim>\<open>Number.prototype.toString()\<close> on an integer: decimal digits, a minus sign first
  when the number is negative.\<close>

fun digitsOf :: "nat \<Rightarrow> string" where
  "digitsOf n = (if n < 10 then [digitChar n] else digitsOf (n div 10) @ [digitChar (n mod 10)])"

declare digitsOf.simps [simp del]

definition toString :: "int \<Rightarrow> string" where
  "toString i = (if i < 0 then CHR ''-'' # digitsOf (nat (- i)) else digitsOf (nat i))"

text \<open>\<^verbatim>\<open>s.padStart(n, c)\<close> with a one-character filler.\<close>

definition padStart :: "nat \<Rightarrow> char \<Rightarrow> string \<Rightarrow> string" where
  "padStart n c s = replicate (n - length s) c @ s"

text \<open>The remainder operator \<^verbatim>\<open>%\<close>: the result takes the sign of the dividend.\<close>

definition js_rem :: "int \<Rightarrow> int \<Rightarrow> int" where
  "js_rem a b = sgn a * (\<bar>a\<bar> mod \<bar>b\<bar>)"

text \<open>
  \<^verbatim>\<open>parseInt(s, 10)\<close>: leading white space is skipped, one sign is accepted, then the
  longest run of decimal digits is read; without a digit the result is \<open>NaN\<close>
  (\<^const>\<open>None\<close>). Whatever follows the digits is ignored.

  A \<^typ>\<open>char\<close> is a code unit below 256; the white space among these is the six ASCII
  characters and the no-break space. The value returned is the integer the digits
  denote. The script's number is a double: it is that integer as long as its magnitude
  is at most \<open>maxSafeInteger\<close>, and so are the sums and products the script forms of
  such numbers while they stay in that range. The properties of the timer are stated
  for fields in that range.
\<close>

definition maxSafeInteger :: int where
  "maxSafeInteger = 9007199254740991"

definition isWhiteSpace :: "char \<Rightarrow> bool" where
  "isWhiteSpace c =
     (c \<in> set [CHR 0x09, CHR 0x0A, CHR 0x0B, CHR 0x0C, CHR 0x0D, CHR '' '', CHR 0xA0])"

definition isDigit :: "char \<Rightarrow> bool" where
  "isDigit c = (48 \<le> (of_char c :: nat) \<and> (of_char c :: nat) \<le> 57)"

definition digitVal :: "char \<Rightarrow> nat" where
  "digitVal c = of_char c - 48"

fun digitsValue :: "nat \<Rightarrow> string \<Rightarrow> nat" where
  "digitsValue acc [] = acc"
| "digitsValue acc (c # cs) = digitsValue (acc * 10 + digitVal c) cs"

definition stripSign :: "string \<Rightarrow> int \<times> string" where
  "stripSign t =
     (case t of
        [] \<Rightarrow> (1, [])
      | c # r \<Rightarrow> if c = CHR ''-'' then (- 1, r) else if c = CHR ''+'' then (1, r) else (1, t))"

definition parseInt :: "string \<Rightarrow> int option" where
  "parseInt s =
     (let (sign, u) = stripSign (dropWhile isWhiteSpace s);
          ds = takeWhile isDigit u
      in if ds = [] then None else Some (sign * int (digitsValue 0 ds)))"

text \<open>\<^verbatim>\<open>s.split(':')\<close>: the pieces between the separators; never an empty array.\<close>

fun split :: "char \<Rightarrow> string \<Rightarrow> string list" where
  "split sep [] = [[]]"
| "split sep (c # cs) =
     (if c = sep then [] # split sep cs
      else (case split sep cs of p # ps \<Rightarrow> (c # p) # ps | [] \<Rightarrow> [[c]]))"


section \<open>Stopwatch time formatting\<close>

record formatted =
  hours :: string
  minutes :: string
  seconds :: string
  milliseconds :: string

text \<open>\<^verbatim>\<open>formatTime\<close> (lines 315-322). \<^verbatim>\<open>Math.floor(a / b)\<close> on integers is \<open>div\<close>.\<close>

definition formatTime :: "int \<Rightarrow> formatted" where
  "formatTime timeInMs =
     (let totalSeconds = timeInMs div 1000
      in \<lparr> hours = padStart 2 CHR ''0'' (toString (totalSeconds div 3600)),
           minutes = padStart 2 CHR ''0'' (toString (js_rem (totalSeconds div 60) 60)),
           seconds = padStart 2 CHR ''0'' (toString (js_rem totalSeconds 60)),
           milliseconds = padStart 2 CHR ''0'' (toString (js_rem timeInMs 1000 div 10)) \<rparr>)"


section \<open>View router\<close>

text \<open>
  The four panels. \<^verbatim>\<open>document.getElementById\<close> may return \<^verbatim>\<open>null\<close>, so \<^verbatim>\<open>views\<close> maps
  a key to the panel's \<^verbatim>\<open>hidden\<close> class flag when the element exists and to
  \<^const>\<open>None\<close> when it does not.
\<close>

datatype ViewKey = Alarm | Timer | Stopwatch | Weather

definition viewKeys :: "ViewKey list" where
  "viewKeys = [Alarm, Timer, Stopwatch, Weather]"

record page =
  views :: "ViewKey \<rightharpoonup> bool"
  themeColor :: "string option"

definition addHidden :: "ViewKey \<Rightarrow> (ViewKey \<rightharpoonup> bool) \<Rightarrow> (ViewKey \<rightharpoonup> bool)" where
  "addHidden key vs = (case vs key of None \<Rightarrow> vs | Some _ \<Rightarrow> vs(key \<mapsto> True))"

text \<open>
  \<^verbatim>\<open>updateVisibleView\<close> (lines 57-70). The background colour that
  \<^verbatim>\<open>getComputedStyle\<close> reports for a panel comes from the style sheet, which is not part
  of the script: it is the parameter \<open>backgroundColor\<close>. The \<^verbatim>\<open>theme-color\<close> meta
  element may be missing (\<^const>\<open>None\<close>).
\<close>

definition updateVisibleView ::
    "(ViewKey \<Rightarrow> string) \<Rightarrow> ViewKey option \<Rightarrow> page \<Rightarrow> page" where
  "updateVisibleView backgroundColor activeViewKey p =
     (let hiddenAll = fold addHidden viewKeys (views p)
      in case activeViewKey of
           None \<Rightarrow> p\<lparr>views := hiddenAll\<rparr>
         | Some key \<Rightarrow>
             (case hiddenAll key of
                None \<Rightarrow> p\<lparr>views := hiddenAll\<rparr>
              | Some _ \<Rightarrow>
                  p\<lparr>views := hiddenAll(key \<mapsto> False),
                    themeColor := map_option (\<lambda>_. backgroundColor key) (themeColor p)\<rparr>))"

text \<open>\<^verbatim>\<open>handleOrientationChange\<close> (lines 76-98), on the value of
  \<^verbatim>\<open>screen.orientation.type\<close>.\<close>

definition handleOrientationChange :: "(ViewKey \<Rightarrow> string) \<Rightarrow> string \<Rightarrow> page \<Rightarrow> page" where
  "handleOrientationChange backgroundColor orientation p =
     (if orientation = ''portrait-primary'' then updateVisibleView backgroundColor (Some Alarm) p
      else if orientation = ''portrait-secondary'' then updateVisibleView backgroundColor (Some Timer) p
      else if orientation = ''landscape-secondary'' then updateVisibleView backgroundColor (Some Stopwatch) p
      else if orientation = ''landscape-primary'' then updateVisibleView backgroundColor (Some Weather) p
      else updateVisibleView backgroundColor (Some Alarm) p)"

definition visiblePanels :: "page \<Rightarrow> ViewKey list" where
  "visiblePanels p = filter (\<lambda>key. views p key = Some False) viewKeys"

definition hiddenPanels :: "page \<Rightarrow> ViewKey list" where
  "hiddenPanels p = filter (\<lambda>key. views p key = Some True) viewKeys"

definition allPanelsPresent :: "page \<Rightarrow> bool" where
  "allPanelsPresent p = list_all (\<lambda>key. views p key \<noteq> None) viewKeys"


section \<open>Alarm scheduler\<close>

text \<open>
  Clock readings (\<^verbatim>\<open>new Date()\<close>, \<^verbatim>\<open>getTime()\<close>) are integers: milliseconds since the
  epoch, in UTC. What the local clock shows depends on the time zone of the device, which
  is not part of the script: a \<open>zone\<close> gives the offset of local time from UTC in
  force at a UTC instant (\<open>offsetAtUTC\<close>) and the offset by which a local time is
  read back as an instant (\<open>offsetAtLocal\<close>), the two operations by which the
  language defines \<^verbatim>\<open>setHours\<close>. Across a daylight-saving switch the two differ.
\<close>

record zone =
  offsetAtUTC :: "int \<Rightarrow> int"
  offsetAtLocal :: "int \<Rightarrow> int"

definition msPerDay :: int where
  "msPerDay = 24 * 60 * 60 * 1000"

definition localTime :: "zone \<Rightarrow> int \<Rightarrow> int" where
  "localTime z t = t + offsetAtUTC z t"

definition utcTime :: "zone \<Rightarrow> int \<Rightarrow> int" where
  "utcTime z lt = lt - offsetAtLocal z lt"

text \<open>The first millisecond of the calendar day of a local time.\<close>

definition dayStart :: "int \<Rightarrow> int" where
  "dayStart lt = lt - lt mod msPerDay"

text \<open>A time value beyond the range of \<^verbatim>\<open>Date\<close> is \<open>NaN\<close>.\<close>

definition timeClip :: "int \<Rightarrow> int option" where
  "timeClip v = (if \<bar>v\<bar> \<le> 8640000000000000 then Some v else None)"

text \<open>\<^verbatim>\<open>d.setHours(h, m, 0, 0)\<close> followed by \<^verbatim>\<open>d.getTime()\<close>: the instant at which the
  local clock shows \<open>h:m:00.000\<close> on the local calendar day of \<open>d\<close>; \<open>NaN\<close> when
  either argument is \<open>NaN\<close>.\<close>

definition setHours :: "zone \<Rightarrow> int \<Rightarrow> int option \<Rightarrow> int option \<Rightarrow> int option" where
  "setHours z d h m =
     (case h of
        None \<Rightarrow> None
      | Some hh \<Rightarrow>
          (case m of
             None \<Rightarrow> None
           | Some mm \<Rightarrow>
               timeClip (utcTime z (dayStart (localTime z d)
                                     + hh * (60 * 60 * 1000) + mm * (60 * 1000)))))"

text \<open>Lines 157-165 of \<^verbatim>\<open>setAlarm\<close>: \<open>now\<close> is the clock reading of line 157, \<open>now'\<close>
  the one of line 159. A comparison with \<open>NaN\<close> is false, so \<open>NaN\<close> stays \<open>NaN\<close>.\<close>

definition timeToAlarm :: "zone \<Rightarrow> int \<Rightarrow> int \<Rightarrow> string \<Rightarrow> int option" where
  "timeToAlarm z now now' timeValue =
     (let parts = split CHR '':'' timeValue;
          hours = (case parts of [] \<Rightarrow> None | h # _ \<Rightarrow> parseInt h);
          minutes = (case parts of _ # m # _ \<Rightarrow> parseInt m | _ \<Rightarrow> None);
          alarmTime = setHours z now' hours minutes
      in case alarmTime of
           None \<Rightarrow> None
         | Some a \<Rightarrow>
             (let d = a - now
              in if d < 0 then Some (d + 24 * 60 * 60 * 1000) else Some d))"

text \<open>The texts shown in the status line of the alarm panel. \<open>AlarmSetFor t\<close> stands for
  \<^verbatim>\<open>`Alarm set for ${...toLocaleTimeString(...)}`\<close> of the instant \<open>t\<close>; \<open>OtherStatus\<close> is
  whatever the markup puts there.\<close>

datatype alarm_status =
    NoStatus
  | PleaseSelect
  | AlarmSetFor "int option"
  | WakeUp
  | AlarmCleared
  | OtherStatus string

datatype alarm_callback = TriggerAlarm | ExpireCleared

text \<open>
  The state of the alarm panel: the script variable \<^verbatim>\<open>alarmTimeoutId\<close>, the host's pending
  one-shot callbacks (handle, delay as passed, callback) and the properties of the five
  elements the script touches. The listeners are registered only when all five elements
  exist (line 202), so the guards of lines 150 and 177 never fire. The host hands out
  positive handles, so a handle that is defined is truthy; \<open>lastTimeoutId\<close> is the last
  one handed out. The \<^verbatim>\<open>alarming\<close> class lives on the alarm panel, which may be missing
  (\<^const>\<open>None\<close>).
\<close>

record alarm_state =
  alarmTimeoutId :: "nat option"
  pendingTimeouts :: "(nat \<times> int option \<times> alarm_callback) list"
  lastTimeoutId :: nat
  alarmTimeValue :: string
  alarmTimeInputDisabled :: bool
  setAlarmBtnDisabled :: bool
  clearAlarmBtnDisabled :: bool
  clearAlarmBtnText :: string
  alarmStatus :: alarm_status
  alarmSoundPaused :: bool
  alarmSoundCurrentTime :: nat
  alarmSoundLoop :: bool
  alarming :: "bool option"

definition clearTimeout :: "nat \<Rightarrow> (nat \<times> 'd \<times> 'c) list \<Rightarrow> (nat \<times> 'd \<times> 'c) list" where
  "clearTimeout i ps = filter (\<lambda>e. fst e \<noteq> i) ps"

text \<open>\<^verbatim>\<open>triggerAlarm\<close> (lines 140-147). \<open>playOk\<close> tells whether the browser lets the
  sound start; a refusal is only logged.\<close>

definition triggerAlarm :: "bool \<Rightarrow> alarm_state \<Rightarrow> alarm_state" where
  "triggerAlarm playOk st =
     st\<lparr>alarmSoundLoop := True,
        alarmSoundPaused := (if playOk then False else alarmSoundPaused st),
        alarmStatus := WakeUp,
        alarming := map_option (\<lambda>_. True) (alarming st),
        clearAlarmBtnText := ''Stop Alarm''\<rparr>"

text \<open>\<^verbatim>\<open>setAlarm\<close> (lines 149-174).\<close>

definition setAlarm :: "zone \<Rightarrow> int \<Rightarrow> int \<Rightarrow> alarm_state \<Rightarrow> alarm_state" where
  "setAlarm z now now' st =
     (if alarmTimeValue st = [] then st\<lparr>alarmStatus := PleaseSelect\<rparr>
      else
        (let delay = timeToAlarm z now now' (alarmTimeValue st);
             alarmDateTime = (case delay of None \<Rightarrow> None | Some d \<Rightarrow> timeClip (now + d));
             handle = Suc (lastTimeoutId st)
         in st\<lparr>alarmTimeoutId := Some handle,
               pendingTimeouts := pendingTimeouts st @ [(handle, delay, TriggerAlarm)],
               lastTimeoutId := handle,
               alarmStatus := AlarmSetFor alarmDateTime,
               setAlarmBtnDisabled := True,
               clearAlarmBtnDisabled := False,
               alarmTimeInputDisabled := True\<rparr>))"

text \<open>\<^verbatim>\<open>clearAlarm\<close> (lines 176-200).\<close>

definition clearAlarm :: "alarm_state \<Rightarrow> alarm_state" where
  "clearAlarm st =
     (let st1 = (case alarmTimeoutId st of
                   None \<Rightarrow> st
                 | Some i \<Rightarrow> st\<lparr>pendingTimeouts := clearTimeout i (pendingTimeouts st),
                                alarmTimeoutId := None\<rparr>);
          handle = Suc (lastTimeoutId st1)
      in st1\<lparr>alarmSoundPaused := True,
             alarmSoundCurrentTime := 0,
             alarmSoundLoop := False,
             alarmStatus := AlarmCleared,
             pendingTimeouts := pendingTimeouts st1 @ [(handle, Some 2000, ExpireCleared)],
             lastTimeoutId := handle,
             setAlarmBtnDisabled := False,
             clearAlarmBtnDisabled := True,
             clearAlarmBtnText := ''Clear Alarm'',
             alarmTimeInputDisabled := False,
             alarmTimeValue := [],
             alarming := map_option (\<lambda>_. False) (alarming st1)\<rparr>)"

text \<open>The host runs a pending one-shot callback: the entry leaves the queue and its
  callback runs. \<open>ExpireCleared\<close> is the arrow function of lines 188-192.\<close>

definition fireTimeout :: "bool \<Rightarrow> nat \<Rightarrow> alarm_state \<Rightarrow> alarm_state" where
  "fireTimeout playOk i st =
     (case filter (\<lambda>e. fst e = i) (pendingTimeouts st) of
        [] \<Rightarrow> st
      | e # _ \<Rightarrow>
          (let st1 = st\<lparr>pendingTimeouts := clearTimeout i (pendingTimeouts st)\<rparr>
           in case snd (snd e) of
                TriggerAlarm \<Rightarrow> triggerAlarm playOk st1
              | ExpireCleared \<Rightarrow>
                  (if alarmStatus st1 = AlarmCleared then st1\<lparr>alarmStatus := NoStatus\<rparr> else st1)))"

text \<open>The alarm is Idle when nothing is armed or ringing and every control is at its
  default; the status line and the content of the time input are free.\<close>

definition alarmIdle :: "alarm_state \<Rightarrow> bool" where
  "alarmIdle st =
     (alarmTimeoutId st = None
      \<and> \<not> list_ex (\<lambda>e. snd (snd e) = TriggerAlarm) (pendingTimeouts st)
      \<and> alarmSoundPaused st \<and> alarmSoundCurrentTime st = 0 \<and> \<not> alarmSoundLoop st
      \<and> \<not> setAlarmBtnDisabled st \<and> clearAlarmBtnDisabled st
      \<and> clearAlarmBtnText st = ''Clear Alarm''
      \<and> \<not> alarmTimeInputDisabled st
      \<and> alarming st \<noteq> Some True)"

text \<open>The part of the alarm state that the controls and the alert make up: pending
  handle, whether an alarm callback is still queued, audio position and loop flag,
  enablement and label of the controls, content of the input, \<^verbatim>\<open>alarming\<close> flag.\<close>

record alarm_controls =
  c_alarmTimeoutId :: "nat option"
  c_alarmQueued :: bool
  c_soundPaused :: bool
  c_soundCurrentTime :: nat
  c_soundLoop :: bool
  c_setAlarmBtnDisabled :: bool
  c_clearAlarmBtnDisabled :: bool
  c_clearAlarmBtnText :: string
  c_alarmTimeInputDisabled :: bool
  c_alarmTimeValue :: string
  c_alarming :: "bool option"

definition alarmControls :: "alarm_state \<Rightarrow> alarm_controls" where
  "alarmControls st =
     \<lparr> c_alarmTimeoutId = alarmTimeoutId st,
       c_alarmQueued = list_ex (\<lambda>e. snd (snd e) = TriggerAlarm) (pendingTimeouts st),
       c_soundPaused = alarmSoundPaused st,
       c_soundCurrentTime = alarmSoundCurrentTime st,
       c_soundLoop = alarmSoundLoop st,
       c_setAlarmBtnDisabled = setAlarmBtnDisabled st,
       c_clearAlarmBtnDisabled = clearAlarmBtnDisabled st,
       c_clearAlarmBtnText = clearAlarmBtnText st,
       c_alarmTimeInputDisabled = alarmTimeInputDisabled st,
       c_alarmTimeValue = alarmTimeValue st,
       c_alarming = alarming st \<rparr>"

text \<open>In every state the script can reach, the only alarm callback the host may still
  hold is the one whose handle is in \<^verbatim>\<open>alarmTimeoutId\<close>.\<close>

definition alarmQueueOwned :: "alarm_state \<Rightarrow> bool" where
  "alarmQueueOwned st =
     list_all (\<lambda>e. snd (snd e) = TriggerAlarm \<longrightarrow> alarmTimeoutId st = Some (fst e))
       (pendingTimeouts st)"


text \<open>What the user and the host can do to the alarm panel. The handlers are reached
  through the \<^verbatim>\<open>click\<close> listeners of lines 203-204 only; a disabled control does not
  dispatch \<^verbatim>\<open>click\<close>, and a disabled input cannot be edited. \<open>ClickSet\<close> carries the
  two clock readings \<^verbatim>\<open>setAlarm\<close> takes.\<close>

datatype alarm_event =
    TypeTime string
  | ClickSet int int
  | ClickClear
  | TimeoutFires nat

definition alarmStep :: "zone \<Rightarrow> bool \<Rightarrow> alarm_event \<Rightarrow> alarm_state \<Rightarrow> alarm_state" where
  "alarmStep z playOk e st =
     (case e of
        TypeTime v \<Rightarrow> if alarmTimeInputDisabled st then st else st\<lparr>alarmTimeValue := v\<rparr>
      | ClickSet now now' \<Rightarrow> if setAlarmBtnDisabled st then st else setAlarm z now now' st
      | ClickClear \<Rightarrow> if clearAlarmBtnDisabled st then st else clearAlarm st
      | TimeoutFires i \<Rightarrow> fireTimeout playOk i st)"

definition alarmRun :: "zone \<Rightarrow> bool \<Rightarrow> alarm_event list \<Rightarrow> alarm_state \<Rightarrow> alarm_state" where
  "alarmRun z playOk es st = fold (alarmStep z playOk) es st"

text \<open>The states the panel is in when it starts Idle and is driven by these events: it
  is Idle, or else (Armed or Ringing) the set control is disabled, the clear control
  enabled, and the host holds no alarm callback but the one in \<^verbatim>\<open>alarmTimeoutId\<close>.\<close>

definition alarmConsistent :: "alarm_state \<Rightarrow> bool" where
  "alarmConsistent st =
     (alarmIdle st
      \<or> (alarmQueueOwned st \<and> setAlarmBtnDisabled st \<and> \<not> clearAlarmBtnDisabled st))"


section \<open>Countdown timer\<close>

text \<open>
  The state of the timer panel: the script variables of lines 218-220, the host's running
  one-second intervals whose callback is \<^verbatim>\<open>tick\<close> (in the order of their creation) and
  the properties of the elements the script touches. The listeners are registered only
  when all seven elements exist (line 295). The \<^verbatim>\<open>timer-finished\<close> class lives on the
  timer panel, which may be missing (\<^const>\<open>None\<close>).
\<close>

record timer_state =
  timerIntervalId :: "nat option"
  secondsRemaining :: int
  isPaused :: bool
  activeIntervals :: "nat list"
  lastIntervalId :: nat
  timerDisplay :: string
  minutesValue :: string
  secondsValue :: string
  minutesInputDisabled :: bool
  secondsInputDisabled :: bool
  startTimerBtnDisabled :: bool
  pauseTimerBtnDisabled :: bool
  resetTimerBtnDisabled :: bool
  pauseTimerBtnText :: string
  timerSoundPaused :: bool
  timerSoundCurrentTime :: nat
  timerSoundLoop :: bool
  timerFinished :: "bool option"

text \<open>\<^verbatim>\<open>clearInterval(id)\<close>: an undefined or stale handle cancels nothing.\<close>

definition clearInterval :: "nat option \<Rightarrow> nat list \<Rightarrow> nat list" where
  "clearInterval h ids = (case h of None \<Rightarrow> ids | Some i \<Rightarrow> filter (\<lambda>j. j \<noteq> i) ids)"

text \<open>\<^verbatim>\<open>parseInt(v, 10) || 0\<close>: \<open>NaN\<close> and \<open>0\<close> are falsy.\<close>

definition parseField :: "string \<Rightarrow> int" where
  "parseField v = (case parseInt v of None \<Rightarrow> 0 | Some n \<Rightarrow> if n = 0 then 0 else n)"

text \<open>\<^verbatim>\<open>updateTimerDisplay\<close> (lines 222-226).\<close>

definition updateTimerDisplay :: "timer_state \<Rightarrow> timer_state" where
  "updateTimerDisplay st =
     (let minutes = secondsRemaining st div 60;
          seconds = js_rem (secondsRemaining st) 60
      in st\<lparr>timerDisplay :=
              padStart 2 CHR ''0'' (toString minutes) @ '':'' @ padStart 2 CHR ''0'' (toString seconds)\<rparr>)"

text \<open>\<^verbatim>\<open>startTimer\<close> (lines 228-249).\<close>

definition startTimer :: "timer_state \<Rightarrow> timer_state" where
  "startTimer st =
     (let minutes = parseField (minutesValue st);
          seconds = parseField (secondsValue st);
          totalSeconds = minutes * 60 + seconds
      in if totalSeconds \<le> 0 then st
         else
           (let st1 = updateTimerDisplay (st\<lparr>secondsRemaining := totalSeconds\<rparr>);
                handle = Suc (lastIntervalId st1)
            in st1\<lparr>timerIntervalId := Some handle,
                   activeIntervals := activeIntervals st1 @ [handle],
                   lastIntervalId := handle,
                   isPaused := False,
                   startTimerBtnDisabled := True,
                   pauseTimerBtnDisabled := False,
                   pauseTimerBtnText := ''Pause'',
                   resetTimerBtnDisabled := False,
                   minutesInputDisabled := True,
                   secondsInputDisabled := True\<rparr>))"

text \<open>\<^verbatim>\<open>pauseTimer\<close> (lines 251-261).\<close>

definition pauseTimer :: "timer_state \<Rightarrow> timer_state" where
  "pauseTimer st =
     (if isPaused st then
        (let handle = Suc (lastIntervalId st)
         in st\<lparr>timerIntervalId := Some handle,
               activeIntervals := activeIntervals st @ [handle],
               lastIntervalId := handle,
               isPaused := False,
               pauseTimerBtnText := ''Pause''\<rparr>)
      else
        st\<lparr>activeIntervals := clearInterval (timerIntervalId st) (activeIntervals st),
           isPaused := True,
           pauseTimerBtnText := ''Resume''\<rparr>)"

text \<open>\<^verbatim>\<open>resetTimer\<close> (lines 263-282).\<close>

definition resetTimer :: "timer_state \<Rightarrow> timer_state" where
  "resetTimer st =
     (let st1 = updateTimerDisplay
                  (st\<lparr>activeIntervals := clearInterval (timerIntervalId st) (activeIntervals st),
                      timerIntervalId := None,
                      secondsRemaining := 0,
                      isPaused := False\<rparr>)
      in st1\<lparr>timerSoundPaused := True,
             timerSoundCurrentTime := 0,
             timerFinished := map_option (\<lambda>_. False) (timerFinished st1),
             startTimerBtnDisabled := False,
             pauseTimerBtnDisabled := True,
             pauseTimerBtnText := ''Pause'',
             resetTimerBtnDisabled := True,
             minutesInputDisabled := False,
             secondsInputDisabled := False,
             minutesValue := [],
             secondsValue := []\<rparr>)"

text \<open>\<^verbatim>\<open>tick\<close> (lines 284-293). \<open>playOk\<close> tells whether the browser lets the sound
  start.\<close>

definition tick :: "bool \<Rightarrow> timer_state \<Rightarrow> timer_state" where
  "tick playOk st =
     (let st1 = updateTimerDisplay (st\<lparr>secondsRemaining := secondsRemaining st - 1\<rparr>)
      in if secondsRemaining st1 \<le> 0 then
           st1\<lparr>activeIntervals := clearInterval (timerIntervalId st1) (activeIntervals st1),
               timerSoundLoop := True,
               timerSoundPaused := (if playOk then False else timerSoundPaused st1),
               timerFinished := map_option (\<lambda>_. True) (timerFinished st1)\<rparr>
         else st1)"

text \<open>One second passes: the host runs \<^verbatim>\<open>tick\<close> once for every interval that is still
  running when its turn comes.\<close>

fun fireIntervals :: "bool \<Rightarrow> nat list \<Rightarrow> timer_state \<Rightarrow> timer_state" where
  "fireIntervals playOk [] st = st"
| "fireIntervals playOk (i # ids) st =
     fireIntervals playOk ids (if i \<in> set (activeIntervals st) then tick playOk st else st)"

definition elapseSecond :: "bool \<Rightarrow> timer_state \<Rightarrow> timer_state" where
  "elapseSecond playOk st = fireIntervals playOk (activeIntervals st) st"

text \<open>What the user and the host can do to the timer panel. A disabled control does not
  dispatch \<^verbatim>\<open>click\<close>, and a disabled input cannot be edited.\<close>

datatype timer_event =
    TypeMinutes string
  | TypeSeconds string
  | ClickStart
  | ClickPause
  | ClickReset
  | SecondPasses

definition timerStep :: "bool \<Rightarrow> timer_event \<Rightarrow> timer_state \<Rightarrow> timer_state" where
  "timerStep playOk e st =
     (case e of
        TypeMinutes v \<Rightarrow> if minutesInputDisabled st then st else st\<lparr>minutesValue := v\<rparr>
      | TypeSeconds v \<Rightarrow> if secondsInputDisabled st then st else st\<lparr>secondsValue := v\<rparr>
      | ClickStart \<Rightarrow> if startTimerBtnDisabled st then st else startTimer st
      | ClickPause \<Rightarrow> if pauseTimerBtnDisabled st then st else pauseTimer st
      | ClickReset \<Rightarrow> if resetTimerBtnDisabled st then st else resetTimer st
      | SecondPasses \<Rightarrow> elapseSecond playOk st)"

definition timerRun :: "bool \<Rightarrow> timer_event list \<Rightarrow> timer_state \<Rightarrow> timer_state" where
  "timerRun playOk es st = fold (timerStep playOk) es st"

text \<open>The panel as \<^verbatim>\<open>resetTimer\<close> leaves it, with the script variables at their initial
  values (lines 218-220) and no interval registered.\<close>

definition timerIdleState :: timer_state where
  "timerIdleState =
     \<lparr> timerIntervalId = None, secondsRemaining = 0, isPaused = False,
       activeIntervals = [], lastIntervalId = 0,
       timerDisplay = ''00:00'', minutesValue = [], secondsValue = [],
       minutesInputDisabled = False, secondsInputDisabled = False,
       startTimerBtnDisabled = False, pauseTimerBtnDisabled = True,
       resetTimerBtnDisabled = True, pauseTimerBtnText = ''Pause'',
       timerSoundPaused = True, timerSoundCurrentTime = 0, timerSoundLoop = False,
       timerFinished = Some False \<rparr>"

text \<open>The timer is Running when its own interval is the one the host runs.\<close>

definition timerRunning :: "timer_state \<Rightarrow> bool" where
  "timerRunning st =
     (\<not> isPaused st \<and> 0 < secondsRemaining st
      \<and> (case timerIntervalId st of None \<Rightarrow> False | Some i \<Rightarrow> activeIntervals st = [i]))"


section \<open>Stopwatch\<close>

text \<open>
  The state of the stopwatch panel: the script variables of lines 309-313, the host's
  running 10 ms refresh intervals, and the properties of the elements the script touches.
  The listeners are registered only when the display, both buttons and the lap list
  exist (line 370); the centisecond span may be missing (\<^const>\<open>None\<close>). \<open>laps\<close> holds
  the markup of the list items, the topmost first.
\<close>

record stopwatch_state =
  stopwatchIntervalId :: "nat option"
  startTime :: int
  elapsedTime :: int
  isRunning :: bool
  lapCounter :: int
  refreshIntervals :: "nat list"
  lastRefreshId :: nat
  stopwatchDisplay :: string
  stopwatchMilliseconds :: "string option"
  primaryBtnText :: string
  primaryBtnRunning :: bool
  secondaryBtnText :: string
  secondaryBtnDisabled :: bool
  laps :: "string list"

text \<open>\<^verbatim>\<open>updateStopwatchDisplay\<close> (lines 324-332); \<open>currentTime\<close> is \<^verbatim>\<open>Date.now()\<close>.\<close>

definition updateStopwatchDisplay :: "int \<Rightarrow> stopwatch_state \<Rightarrow> stopwatch_state" where
  "updateStopwatchDisplay currentTime st =
     (let currentElapsedTime = elapsedTime st + (if isRunning st then currentTime - startTime st else 0);
          f = formatTime currentElapsedTime
      in st\<lparr>stopwatchDisplay := hours f @ '':'' @ minutes f @ '':'' @ seconds f,
            stopwatchMilliseconds := map_option (\<lambda>_. ''.'' @ milliseconds f) (stopwatchMilliseconds st)\<rparr>)"

text \<open>\<^verbatim>\<open>handlePrimaryClick\<close> (lines 334-350); \<open>now\<close> is \<^verbatim>\<open>Date.now()\<close>.\<close>

definition handlePrimaryClick :: "int \<Rightarrow> stopwatch_state \<Rightarrow> stopwatch_state" where
  "handlePrimaryClick now st =
     (let st1 = st\<lparr>isRunning := \<not> isRunning st\<rparr>
      in if isRunning st1 then
           (let handle = Suc (lastRefreshId st1)
            in st1\<lparr>startTime := now,
                   stopwatchIntervalId := Some handle,
                   refreshIntervals := refreshIntervals st1 @ [handle],
                   lastRefreshId := handle,
                   primaryBtnText := ''Stop'',
                   primaryBtnRunning := True,
                   secondaryBtnText := ''Lap'',
                   secondaryBtnDisabled := False\<rparr>)
         else
           st1\<lparr>refreshIntervals := clearInterval (stopwatchIntervalId st1) (refreshIntervals st1),
               elapsedTime := elapsedTime st1 + (now - startTime st1),
               primaryBtnText := ''Start'',
               primaryBtnRunning := False,
               secondaryBtnText := ''Reset''\<rparr>)"

text \<open>\<^verbatim>\<open>handleSecondaryClick\<close> (lines 352-368); \<open>now\<close> is \<^verbatim>\<open>Date.now()\<close>.\<close>

definition handleSecondaryClick :: "int \<Rightarrow> stopwatch_state \<Rightarrow> stopwatch_state" where
  "handleSecondaryClick now st =
     (if isRunning st then
        (let lapTime = elapsedTime st + (now - startTime st);
             f = formatTime lapTime;
             li = ''<span>Lap '' @ toString (lapCounter st) @ ''</span><span>''
                  @ hours f @ '':'' @ minutes f @ '':'' @ seconds f @ ''.'' @ milliseconds f
                  @ ''</span>''
         in st\<lparr>laps := li # laps st, lapCounter := lapCounter st + 1\<rparr>)
      else
        (let st1 = updateStopwatchDisplay now
                     (st\<lparr>elapsedTime := 0, startTime := 0, lapCounter := 1, laps := []\<rparr>)
         in st1\<lparr>secondaryBtnDisabled := True\<rparr>))"

text \<open>What can happen to the stopwatch panel, each with the clock reading at that
  moment. A disabled control does not dispatch \<^verbatim>\<open>click\<close>; a refresh runs only while the
  host holds a refresh interval.\<close>

datatype stopwatch_event = ClickPrimary int | ClickSecondary int | Refresh int

definition stopwatchStep :: "stopwatch_event \<Rightarrow> stopwatch_state \<Rightarrow> stopwatch_state" where
  "stopwatchStep e st =
     (case e of
        ClickPrimary now \<Rightarrow> handlePrimaryClick now st
      | ClickSecondary now \<Rightarrow> if secondaryBtnDisabled st then st else handleSecondaryClick now st
      | Refresh now \<Rightarrow> if refreshIntervals st = [] then st else updateStopwatchDisplay now st)"

text \<open>An event is a lap when the secondary control is used while running, and a reset
  when it is used while stopped.\<close>

definition isLap :: "stopwatch_event \<Rightarrow> stopwatch_state \<Rightarrow> bool" where
  "isLap e st =
     (case e of ClickSecondary _ \<Rightarrow> \<not> secondaryBtnDisabled st \<and> isRunning st | _ \<Rightarrow> False)"

definition isReset :: "stopwatch_event \<Rightarrow> stopwatch_state \<Rightarrow> bool" where
  "isReset e st =
     (case e of ClickSecondary _ \<Rightarrow> \<not> secondaryBtnDisabled st \<and> \<not> isRunning st | _ \<Rightarrow> False)"

text \<open>Running a sequence of events, and the number of laps taken since the last reset
  (none, when no reset happens, counts from the start).\<close>

fun stopwatchRun :: "stopwatch_event list \<Rightarrow> stopwatch_state \<Rightarrow> stopwatch_state" where
  "stopwatchRun [] st = st"
| "stopwatchRun (e # es) st = stopwatchRun es (stopwatchStep e st)"

fun resetsIn :: "stopwatch_event list \<Rightarrow> stopwatch_state \<Rightarrow> nat" where
  "resetsIn [] st = 0"
| "resetsIn (e # es) st = (if isReset e st then 1 else 0) + resetsIn es (stopwatchStep e st)"

fun lapsIn :: "stopwatch_event list \<Rightarrow> stopwatch_state \<Rightarrow> nat" where
  "lapsIn [] st = 0"
| "lapsIn (e # es) st = (if isLap e st then 1 else 0) + lapsIn es (stopwatchStep e st)"

text \<open>The stopwatch before its first use: the script variables at their initial values
  (lines 309-313), the controls as a reset leaves them.\<close>

definition stopwatchInitial :: stopwatch_state where
  "stopwatchInitial =
     \<lparr> stopwatchIntervalId = None, startTime = 0, elapsedTime = 0, isRunning = False,
       lapCounter = 1, refreshIntervals = [], lastRefreshId = 0,
       stopwatchDisplay = ''00:00:00'', stopwatchMilliseconds = Some ''.00'',
       primaryBtnText = ''Start'', primaryBtnRunning = False,
       secondaryBtnText = ''Reset'', secondaryBtnDisabled = True, laps = [] \<rparr>"


section \<open>Weather panel\<close>

text \<open>The part of the response body that \<^verbatim>\<open>updateWeatherUI\<close> reads.\<close>

record weather_data =
  name :: string
  temp :: rat
  description :: string
  icon :: string

text \<open>How the request of line 404 ends: the promise is rejected or the body cannot be
  read (an error with a message), the response is not \<^verbatim>\<open>ok\<close> (its status), or the body
  arrives.\<close>

datatype fetch_result =
    Rejected string
  | NotOk int
  | Body weather_data

record weather_card =
  weatherCity :: string
  weatherTemp :: int
  weatherDesc :: string
  weatherIconSrc :: string
  weatherIconAlt :: string

text \<open>
  The state of the weather panel. \<open>dataLoaded\<close> is \<^const>\<open>None\<close> when the panel element
  is missing, and otherwise tells whether its \<^verbatim>\<open>data-loaded\<close> attribute is \<^verbatim>\<open>'true'\<close>.
  \<open>hasGeolocation\<close> is \<^verbatim>\<open>'geolocation' in navigator\<close>. The host's side is the
  location requests and the fetches that have not been answered yet;
  \<open>locationRequests\<close> and \<open>fetches\<close> count all that were ever issued.
\<close>

record weather_state =
  dataLoaded :: "bool option"
  hasGeolocation :: bool
  weatherStatus :: string
  weatherStatusHidden :: bool
  weatherCardHidden :: bool
  weatherCard :: "weather_card option"
  pendingLocationRequests :: nat
  pendingFetches :: "(rat \<times> rat) list"
  locationRequests :: nat
  fetches :: nat

text \<open>\<^verbatim>\<open>Math.round\<close>: the nearest integer, a half rounded up.\<close>

definition mathRound :: "rat \<Rightarrow> int" where
  "mathRound x = \<lfloor>x + 1 / 2\<rfloor>"

text \<open>\<^verbatim>\<open>updateWeatherUI\<close> (lines 387-396). \<open>weatherTemp\<close> is the number shown before
  the unit.\<close>

definition updateWeatherUI :: "weather_data \<Rightarrow> weather_state \<Rightarrow> weather_state" where
  "updateWeatherUI d st =
     st\<lparr>weatherCard :=
          Some \<lparr> weatherCity = name d,
                 weatherTemp = mathRound (temp d),
                 weatherDesc = description d,
                 weatherIconSrc = ''https://openweathermap.org/img/wn/'' @ icon d @ ''@2x.png'',
                 weatherIconAlt = description d \<rparr>,
        weatherStatusHidden := True,
        weatherCardHidden := False\<rparr>"

text \<open>\<^verbatim>\<open>fetchWeather\<close> (lines 398-414) up to the \<^verbatim>\<open>await\<close> of line 404, and its
  continuation once the request has ended.\<close>

definition fetchWeatherBegin :: "rat \<Rightarrow> rat \<Rightarrow> weather_state \<Rightarrow> weather_state" where
  "fetchWeatherBegin lat lon st =
     st\<lparr>weatherStatus := ''Loading weather...'',
        weatherStatusHidden := False,
        weatherCardHidden := True,
        pendingFetches := pendingFetches st @ [(lat, lon)],
        fetches := Suc (fetches st)\<rparr>"

definition fetchWeatherEnd :: "fetch_result \<Rightarrow> weather_state \<Rightarrow> weather_state" where
  "fetchWeatherEnd r st =
     (case r of
        Rejected msg \<Rightarrow> st\<lparr>weatherStatus := ''Error: '' @ msg @ ''.''\<rparr>
      | NotOk status \<Rightarrow>
          st\<lparr>weatherStatus :=
               ''Error: '' @ ''Weather data not available (HTTP '' @ toString status @ '')'' @ ''.''\<rparr>
      | Body d \<Rightarrow>
          (let st1 = updateWeatherUI d st
           in st1\<lparr>dataLoaded := map_option (\<lambda>_. True) (dataLoaded st1)\<rparr>))"

text \<open>\<^verbatim>\<open>getWeather\<close> (lines 416-434).\<close>

definition getWeather :: "weather_state \<Rightarrow> weather_state" where
  "getWeather st =
     (if dataLoaded st = None \<or> dataLoaded st = Some True then st
      else if hasGeolocation st then
        st\<lparr>weatherStatus := ''Requesting location...'',
           pendingLocationRequests := Suc (pendingLocationRequests st),
           locationRequests := Suc (locationRequests st)\<rparr>
      else st\<lparr>weatherStatus := ''Geolocation is not supported by your browser.''\<rparr>)"

text \<open>The two callbacks passed to \<^verbatim>\<open>getCurrentPosition\<close> (lines 424-429).\<close>

definition positionSuccess :: "rat \<Rightarrow> rat \<Rightarrow> weather_state \<Rightarrow> weather_state" where
  "positionSuccess lat lon st = fetchWeatherBegin lat lon st"

definition positionError :: "string \<Rightarrow> weather_state \<Rightarrow> weather_state" where
  "positionError msg st =
     st\<lparr>weatherStatus := ''Error: '' @ msg @ ''. Please enable location services.''\<rparr>"

text \<open>The callback of the intersection observer (lines 438-444), on the
  \<^verbatim>\<open>isIntersecting\<close> flags of its entries.\<close>

definition observerCallback :: "bool list \<Rightarrow> weather_state \<Rightarrow> weather_state" where
  "observerCallback entries st = fold (\<lambda>isIntersecting s. if isIntersecting then getWeather s else s) entries st"

text \<open>
  What the host can do to the weather panel. The observer exists only when the panel
  element does (line 437). A location request or a fetch can only be answered while one
  is pending; which pending fetch is answered makes no difference to the panel, so the oldest is
  taken.
\<close>

datatype weather_event =
    Intersection "bool list"
  | PositionFound rat rat
  | PositionFailed string
  | FetchEnded fetch_result

definition weatherStep :: "weather_event \<Rightarrow> weather_state \<Rightarrow> weather_state" where
  "weatherStep e st =
     (case e of
        Intersection entries \<Rightarrow> if dataLoaded st = None then st else observerCallback entries st
      | PositionFound lat lon \<Rightarrow>
          if pendingLocationRequests st = 0 then st
          else positionSuccess lat lon (st\<lparr>pendingLocationRequests := pendingLocationRequests st - 1\<rparr>)
      | PositionFailed msg \<Rightarrow>
          if pendingLocationRequests st = 0 then st
          else positionError msg (st\<lparr>pendingLocationRequests := pendingLocationRequests st - 1\<rparr>)
      | FetchEnded r \<Rightarrow>
          (case pendingFetches st of
             [] \<Rightarrow> st
           | _ # rest \<Rightarrow> fetchWeatherEnd r (st\<lparr>pendingFetches := rest\<rparr>)))"

definition weatherRun :: "weather_event list \<Rightarrow> weather_state \<Rightarrow> weather_state" where
  "weatherRun es st = fold weatherStep es st"

text \<open>The panel at page load: nothing requested, nothing loaded.\<close>

definition weatherInitial :: weather_state where
  "weatherInitial =
     \<lparr> dataLoaded = Some False, hasGeolocation = True,
       weatherStatus = [], weatherStatusHidden = False, weatherCardHidden = True,
       weatherCard = None, pendingLocationRequests = 0, pendingFetches = [],
       locationRequests = 0, fetches = 0 \<rparr>"

text \<open>The sequence has completed when no location request and no fetch is pending.\<close>

definition weatherQuiet :: "weather_state \<Rightarrow> bool" where
  "weatherQuiet st = (pendingLocationRequests st = 0 \<and> pendingFetches st = [])"


section \<open>Notions used by the properties\<close>

text \<open>The routing table: which panel an orientation reading selects.\<close>

definition panelFor :: "string \<Rightarrow> ViewKey" where
  "panelFor orientation =
     (if orientation = ''portrait-primary'' then Alarm
      else if orientation = ''portrait-secondary'' then Timer
      else if orientation = ''landscape-secondary'' then Stopwatch
      else if orientation = ''landscape-primary'' then Weather
      else Alarm)"

definition examplePage :: page where
  "examplePage = \<lparr> views = (\<lambda>key. Some (key \<noteq> Weather)), themeColor = Some ''#ffffff'' \<rparr>"

text \<open>The content of the time input reads as the time of day \<open>hh:mm\<close>: both numbers
  parse and lie in the range of a clock.\<close>

definition timeOfDay :: "string \<Rightarrow> int \<Rightarrow> int \<Rightarrow> bool" where
  "timeOfDay v hh mm =
     (case split CHR '':'' v of
        h # m # _ \<Rightarrow>
          parseInt h = Some hh \<and> parseInt m = Some mm \<and> 0 \<le> hh \<and> hh < 24 \<and> 0 \<le> mm \<and> mm < 60
      | _ \<Rightarrow> False)"

text \<open>An alarm panel at rest, the script variable at its initial value (line 120).\<close>

definition alarmIdleState :: alarm_state where
  "alarmIdleState =
     \<lparr> alarmTimeoutId = None, pendingTimeouts = [], lastTimeoutId = 0,
       alarmTimeValue = [], alarmTimeInputDisabled = False,
       setAlarmBtnDisabled = False, clearAlarmBtnDisabled = True,
       clearAlarmBtnText = ''Clear Alarm'', alarmStatus = NoStatus,
       alarmSoundPaused = True, alarmSoundCurrentTime = 0, alarmSoundLoop = False,
       alarming = Some False \<rparr>"

text \<open>A zone that keeps UTC, and the zone of New York around 1 November 2026, when at
  06:00 UTC the clocks go back from 02:00 to 01:00: the offset is -4 h before and -5 h
  after, and a local time that occurs twice is read with the earlier offset.\<close>

definition utcZone :: zone where
  "utcZone = \<lparr> offsetAtUTC = (\<lambda>t. 0), offsetAtLocal = (\<lambda>lt. 0) \<rparr>"

definition newYorkAutumn2026 :: zone where
  "newYorkAutumn2026 =
     \<lparr> offsetAtUTC = (\<lambda>t. if t < 1793512800000 then - 14400000 else - 18000000),
       offsetAtLocal = (\<lambda>lt. if lt < 1793498400000 then - 14400000 else - 18000000) \<rparr>"

text \<open>The same panel after "07:30" was typed and set at 08:00 (Armed), and after the
  host has run the callback (Ringing).\<close>

definition alarmArmedState :: alarm_state where
  "alarmArmedState =
     alarmRun utcZone True [TypeTime ''07:30'', ClickSet 28800000 28800000] alarmIdleState"

definition alarmRingingState :: alarm_state where
  "alarmRingingState = alarmStep utcZone True (TimeoutFires 1) alarmArmedState"


text \<open>The timer panel after one second was entered and started and the second has
  passed (Finished).\<close>

definition timerFinishedState :: timer_state where
  "timerFinishedState = timerRun True [TypeSeconds ''1'', ClickStart, SecondPasses] timerIdleState"


text \<open>The weather panel after it became visible, the position was found and the
  conditions arrived; and after the location request was refused, or the service
  answered with status 500.\<close>

definition weatherLoadedState :: weather_state where
  "weatherLoadedState =
     weatherRun [Intersection [True], PositionFound 48 2,
                 FetchEnded (Body \<lparr>name = ''Paris'', temp = 37 / 2,
                                    description = ''clear sky'', icon = ''01d''\<rparr>)]
       weatherInitial"

definition weatherDeniedState :: weather_state where
  "weatherDeniedState =
     weatherRun [Intersection [True], PositionFailed ''User denied Geolocation''] weatherInitial"

definition weatherHttpErrorState :: weather_state where
  "weatherHttpErrorState =
     weatherRun [Intersection [True], PositionFound 48 2, FetchEnded (NotOk 500)] weatherInitial"



section \<open>Decimal numerals\<close>

lemma digitChar_isDigit: "d < 10 \<Longrightarrow> isDigit (digitChar d)"
proof -
  assume "d < 10"
  then have "d \<in> {0,1,2,3,4,5,6,7,8,9}" by auto
  then show ?thesis by (auto simp: digitChar_def isDigit_def)
qed

lemma digitVal_digitChar: "d < 10 \<Longrightarrow> digitVal (digitChar d) = d"
proof -
  assume "d < 10"
  then have "d \<in> {0,1,2,3,4,5,6,7,8,9}" by auto
  then show ?thesis by (auto simp: digitChar_def digitVal_def)
qed

lemma digitsOf_isDigit: "list_all isDigit (digitsOf n)"
proof (induction n rule: digitsOf.induct)
  case (1 n)
  show ?case
  proof (cases "n < 10")
    case True
    then show ?thesis by (simp add: digitsOf.simps [of n] digitChar_isDigit)
  next
    case False
    with 1 show ?thesis by (simp add: digitsOf.simps [of n] digitChar_isDigit)
  qed
qed

lemma digitsValue_snoc: "digitsValue acc (cs @ [c]) = digitsValue acc cs * 10 + digitVal c"
  by (induction cs arbitrary: acc) simp_all

lemma digitsValue_digitsOf: "digitsValue 0 (digitsOf n) = n"
proof (induction n rule: digitsOf.induct)
  case (1 n)
  show ?case
  proof (cases "n < 10")
    case True
    then show ?thesis by (simp add: digitsOf.simps [of n] digitVal_digitChar)
  next
    case False
    with 1 show ?thesis by (simp add: digitsOf.simps [of n] digitsValue_snoc digitVal_digitChar)
  qed
qed

lemma digitsOf_nonempty: "digitsOf n \<noteq> []"
  by (subst digitsOf.simps) simp

lemma length_digitsOf_small: "n < 10 \<Longrightarrow> length (digitsOf n) = 1"
  by (subst digitsOf.simps) simp

lemma length_digitsOf_two: "10 \<le> n \<Longrightarrow> n < 100 \<Longrightarrow> length (digitsOf n) = 2"
  by (subst digitsOf.simps) (simp add: length_digitsOf_small)

lemma digitsValue_zeros: "digitsValue 0 (replicate k CHR ''0'' @ cs) = digitsValue 0 cs"
  by (induction k) (simp_all add: digitVal_def)

lemma isDigit_plain: "isDigit c \<Longrightarrow> \<not> isWhiteSpace c \<and> c \<noteq> CHR ''-'' \<and> c \<noteq> CHR ''+''"
  by (auto simp: isDigit_def isWhiteSpace_def)

lemma parseInt_digits:
  assumes "list_all isDigit cs" and "cs \<noteq> []"
  shows "parseInt cs = Some (int (digitsValue 0 cs))"
proof -
  from assms obtain c r where cs: "cs = c # r" by (cases cs) auto
  with assms have c: "isDigit c" by simp
  have dw: "dropWhile isWhiteSpace cs = cs"
    using c cs isDigit_plain by simp
  have ss: "stripSign cs = (1, cs)"
    using c cs isDigit_plain by (simp add: stripSign_def)
  have tw: "takeWhile isDigit cs = cs"
    using assms(1) by (simp add: list_all_iff)
  show ?thesis by (simp add: parseInt_def Let_def dw ss tw assms(2))
qed

lemma parseInt_padStart_toString:
  assumes "0 \<le> v"
  shows "parseInt (padStart n CHR ''0'' (toString v)) = Some v"
proof -
  let ?s = "padStart n CHR ''0'' (toString v)"
  have ts: "toString v = digitsOf (nat v)" using assms by (simp add: toString_def)
  have "list_all isDigit ?s"
    using digitsOf_isDigit [of "nat v"]
    by (auto simp: padStart_def ts list_all_iff isDigit_def)
  moreover have "?s \<noteq> []" by (simp add: padStart_def ts digitsOf_nonempty)
  ultimately have "parseInt ?s = Some (int (digitsValue 0 ?s))" by (rule parseInt_digits)
  also have "digitsValue 0 ?s = nat v"
    by (simp add: padStart_def ts digitsValue_zeros digitsValue_digitsOf)
  finally show ?thesis using assms by simp
qed

lemma length_padStart_two:
  assumes "0 \<le> v" and "v < 100"
  shows "length (padStart 2 CHR ''0'' (toString v)) = 2"
proof (cases "v < 10")
  case True
  with assms show ?thesis by (simp add: padStart_def toString_def length_digitsOf_small)
next
  case False
  with assms show ?thesis by (simp add: padStart_def toString_def length_digitsOf_two)
qed

lemma js_rem_nonneg: "0 \<le> a \<Longrightarrow> 0 < b \<Longrightarrow> js_rem a b = a mod b"
  by (cases "a = 0") (simp_all add: js_rem_def)


section \<open>Stopwatch time formatting: properties\<close>

lemma length_padStart_ge: "n \<le> length (padStart n c s)"
  by (simp add: padStart_def)

lemma mod_below_100:
  assumes "0 < b" and "b \<le> 100"
  shows "(a::int) mod b < 100"
proof -
  have "a mod b < b" using assms(1) by (rule pos_mod_bound)
  then show ?thesis using assms(2) by (rule less_le_trans)
qed

lemma centis_below_100: "0 \<le> (a::int) mod 1000 div 10 \<and> a mod 1000 div 10 < 100"
proof -
  have "a mod 1000 \<le> 999" using pos_mod_bound [of 1000 a] by simp
  then have "a mod 1000 div 10 \<le> 999 div 10" by (rule zdiv_mono1) simp
  moreover have "0 \<le> a mod 1000 div 10" by (simp add: pos_imp_zdiv_nonneg_iff)
  ultimately show ?thesis by simp
qed

lemma formatTime_nonneg:
  assumes "0 \<le> timeInMs"
  shows "formatTime timeInMs =
           \<lparr> hours = padStart 2 CHR ''0'' (toString (timeInMs div 1000 div 3600)),
             minutes = padStart 2 CHR ''0'' (toString (timeInMs div 1000 div 60 mod 60)),
             seconds = padStart 2 CHR ''0'' (toString (timeInMs div 1000 mod 60)),
             milliseconds = padStart 2 CHR ''0'' (toString (timeInMs mod 1000 div 10)) \<rparr>"
proof -
  have "0 \<le> timeInMs div 1000" "0 \<le> timeInMs div 1000 div 60"
    using assms by (simp_all add: pos_imp_zdiv_nonneg_iff)
  then show ?thesis
    using assms by (simp add: formatTime_def Let_def js_rem_nonneg)
qed

text \<open>
  C5. For a non-negative duration, \<^verbatim>\<open>formatTime\<close> yields hours =
  \<open>floor(totalSeconds / 3600)\<close> with no cap at 24, minutes = \<open>floor(totalSeconds / 60) mod 60\<close>,
  seconds = \<open>totalSeconds mod 60\<close> and centiseconds = \<open>floor((ms mod 1000) / 10)\<close>, each
  zero-padded to two digits: the four strings are the padded numerals, they read back as
  those numbers, the last three are exactly two characters long and the hours at least
  two. Formatting 3,661,234 ms gives "01", "01", "01" and "23".
\<close>

theorem formatTime_fields:
  assumes "0 \<le> timeInMs"
  shows "formatTime timeInMs =
           \<lparr> hours = padStart 2 CHR ''0'' (toString (timeInMs div 1000 div 3600)),
             minutes = padStart 2 CHR ''0'' (toString (timeInMs div 1000 div 60 mod 60)),
             seconds = padStart 2 CHR ''0'' (toString (timeInMs div 1000 mod 60)),
             milliseconds = padStart 2 CHR ''0'' (toString (timeInMs mod 1000 div 10)) \<rparr>
       \<and> parseInt (hours (formatTime timeInMs)) = Some (timeInMs div 1000 div 3600)
       \<and> parseInt (minutes (formatTime timeInMs)) = Some (timeInMs div 1000 div 60 mod 60)
       \<and> parseInt (seconds (formatTime timeInMs)) = Some (timeInMs div 1000 mod 60)
       \<and> parseInt (milliseconds (formatTime timeInMs)) = Some (timeInMs mod 1000 div 10)
       \<and> 2 \<le> length (hours (formatTime timeInMs))
       \<and> length (minutes (formatTime timeInMs)) = 2
       \<and> length (seconds (formatTime timeInMs)) = 2
       \<and> length (milliseconds (formatTime timeInMs)) = 2
       \<and> formatTime 3661234 =
           \<lparr> hours = ''01'', minutes = ''01'', seconds = ''01'', milliseconds = ''23'' \<rparr>"
proof -
  note f = formatTime_nonneg [OF assms]
  have h: "0 \<le> timeInMs div 1000 div 3600"
    using assms by (simp add: pos_imp_zdiv_nonneg_iff)
  have m: "0 \<le> timeInMs div 1000 div 60 mod 60" "timeInMs div 1000 div 60 mod 60 < 100"
    using mod_below_100 [of 60 "timeInMs div 1000 div 60"] by simp_all
  have s: "0 \<le> timeInMs div 1000 mod 60" "timeInMs div 1000 mod 60 < 100"
    using mod_below_100 [of 60 "timeInMs div 1000"] by simp_all
  have c: "0 \<le> timeInMs mod 1000 div 10" "timeInMs mod 1000 div 10 < 100"
    using centis_below_100 [of timeInMs] by simp_all
  have p: "parseInt (hours (formatTime timeInMs)) = Some (timeInMs div 1000 div 3600)"
    "parseInt (minutes (formatTime timeInMs)) = Some (timeInMs div 1000 div 60 mod 60)"
    "parseInt (seconds (formatTime timeInMs)) = Some (timeInMs div 1000 mod 60)"
    "parseInt (milliseconds (formatTime timeInMs)) = Some (timeInMs mod 1000 div 10)"
    by (simp_all only: f formatted.select_convs parseInt_padStart_toString [OF h]
        parseInt_padStart_toString [OF m(1)] parseInt_padStart_toString [OF s(1)]
        parseInt_padStart_toString [OF c(1)])
  have l: "2 \<le> length (hours (formatTime timeInMs))"
    "length (minutes (formatTime timeInMs)) = 2"
    "length (seconds (formatTime timeInMs)) = 2"
    "length (milliseconds (formatTime timeInMs)) = 2"
    by (simp_all only: f formatted.select_convs length_padStart_ge length_padStart_two [OF m]
        length_padStart_two [OF s] length_padStart_two [OF c])
  have e: "formatTime 3661234 =
             \<lparr> hours = ''01'', minutes = ''01'', seconds = ''01'', milliseconds = ''23'' \<rparr>"
    by code_simp
  from f p l e show ?thesis by (intro conjI)
qed

theorem formatTime_fields_witness:
  "(0::int) \<le> 360000999
   \<and> parseInt (hours (formatTime 360000999)) = Some 100
   \<and> hours (formatTime 360000999) = ''100''
   \<and> length (milliseconds (formatTime 360000999)) = 2"
proof -
  have h: "(0::int) \<le> 360000999" by simp
  note t = formatTime_fields [OF h]
  from t have "parseInt (hours (formatTime 360000999)) = Some (360000999 div 1000 div 3600)"
    by (elim conjE)
  then have p: "parseInt (hours (formatTime 360000999)) = Some 100" by simp
  from t have l: "length (milliseconds (formatTime 360000999)) = 2"
    by (elim conjE)
  have e: "hours (formatTime 360000999) = ''100''" by code_simp
  from h p e l show ?thesis by (intro conjI)
qed


section \<open>View router: properties\<close>

lemma hiddenAll_present:
  assumes "allPanelsPresent p"
  shows "fold addHidden viewKeys (views p) key = Some True"
proof -
  from assms obtain a b c d where
    "views p Alarm = Some a" "views p Timer = Some b"
    "views p Stopwatch = Some c" "views p Weather = Some d"
    by (auto simp: allPanelsPresent_def viewKeys_def)
  then show ?thesis
    by (cases key) (simp_all add: viewKeys_def addHidden_def)
qed

lemma updateVisibleView_views:
  assumes "allPanelsPresent p"
  shows "views (updateVisibleView bg (Some key) p) = (\<lambda>k. Some (k \<noteq> key))"
proof
  fix k
  show "views (updateVisibleView bg (Some key) p) k = Some (k \<noteq> key)"
    using hiddenAll_present [OF assms, of key] hiddenAll_present [OF assms, of k]
    by (simp add: updateVisibleView_def Let_def)
qed

lemma handleOrientationChange_updates:
  "handleOrientationChange bg orientation p = updateVisibleView bg (Some (panelFor orientation)) p"
  by (simp add: handleOrientationChange_def panelFor_def)

text \<open>
  C1. When the four panel elements exist, then for every orientation reading, known or
  not, \<^verbatim>\<open>handleOrientationChange\<close> leaves exactly one panel visible, the one the table
  gives (portrait-primary: alarm, portrait-secondary: timer, landscape-secondary:
  stopwatch, landscape-primary: weather, anything else: alarm), and the other three
  hidden.
\<close>

theorem handleOrientationChange_one_visible:
  assumes "allPanelsPresent p"
  shows "visiblePanels (handleOrientationChange bg orientation p) = [panelFor orientation]
       \<and> hiddenPanels (handleOrientationChange bg orientation p)
           = filter (\<lambda>key. key \<noteq> panelFor orientation) viewKeys
       \<and> length (hiddenPanels (handleOrientationChange bg orientation p)) = 3
       \<and> panelFor ''portrait-primary'' = Alarm
       \<and> panelFor ''portrait-secondary'' = Timer
       \<and> panelFor ''landscape-secondary'' = Stopwatch
       \<and> panelFor ''landscape-primary'' = Weather
       \<and> (orientation \<notin> {''portrait-primary'', ''portrait-secondary'',
                           ''landscape-secondary'', ''landscape-primary''}
            \<longrightarrow> panelFor orientation = Alarm)"
proof -
  let ?q = "handleOrientationChange bg orientation p"
  have v: "views ?q = (\<lambda>k. Some (k \<noteq> panelFor orientation))"
    by (simp add: handleOrientationChange_updates updateVisibleView_views [OF assms])
  have 1: "visiblePanels ?q = [panelFor orientation]"
    by (cases "panelFor orientation") (simp_all add: visiblePanels_def v viewKeys_def)
  have 2: "hiddenPanels ?q = filter (\<lambda>key. key \<noteq> panelFor orientation) viewKeys"
    by (simp add: hiddenPanels_def v)
  have 3: "length (hiddenPanels ?q) = 3"
    unfolding 2 by (cases "panelFor orientation") (simp_all add: viewKeys_def)
  have 4: "panelFor ''portrait-primary'' = Alarm" "panelFor ''portrait-secondary'' = Timer"
    "panelFor ''landscape-secondary'' = Stopwatch" "panelFor ''landscape-primary'' = Weather"
    by (simp_all add: panelFor_def)
  have 5: "orientation \<notin> {''portrait-primary'', ''portrait-secondary'',
                           ''landscape-secondary'', ''landscape-primary''}
            \<longrightarrow> panelFor orientation = Alarm"
    by (simp add: panelFor_def)
  from 1 2 3 4 5 show ?thesis by simp
qed

theorem handleOrientationChange_one_visible_witness:
  "allPanelsPresent examplePage
   \<and> visiblePanels (handleOrientationChange (\<lambda>_. ''#000000'') ''portrait-secondary'' examplePage)
       = [Timer]
   \<and> hiddenPanels (handleOrientationChange (\<lambda>_. ''#000000'') ''portrait-secondary'' examplePage)
       = [Alarm, Stopwatch, Weather]
   \<and> visiblePanels (handleOrientationChange (\<lambda>_. ''#000000'') ''upside-down'' examplePage)
       = [Alarm]"
proof -
  have h: "allPanelsPresent examplePage"
    by (simp add: allPanelsPresent_def examplePage_def viewKeys_def)
  show ?thesis
    using h
      handleOrientationChange_one_visible [OF h, of "\<lambda>_. ''#000000''" "''portrait-secondary''"]
      handleOrientationChange_one_visible [OF h, of "\<lambda>_. ''#000000''" "''upside-down''"]
    by (simp add: panelFor_def viewKeys_def)
qed


section \<open>Alarm scheduler: properties\<close>

lemma timeOfDay_0730: "timeOfDay ''07:30'' 7 30"
  by (simp add: timeOfDay_def parseInt_def stripSign_def isWhiteSpace_def isDigit_def digitVal_def)



lemma timeOfDay_nonempty: "timeOfDay v hh mm \<Longrightarrow> v \<noteq> []"
  by (auto simp: timeOfDay_def)

lemma timeToAlarm_raw:
  assumes "timeOfDay v hh mm"
    and "\<bar>utcTime z (dayStart (localTime z now') + hh * (60 * 60 * 1000) + mm * (60 * 1000))\<bar>
           \<le> 8640000000000000"
  shows "timeToAlarm z now now' v =
           (let d = utcTime z (dayStart (localTime z now') + hh * (60 * 60 * 1000) + mm * (60 * 1000))
                    - now
            in if d < 0 then Some (d + 24 * 60 * 60 * 1000) else Some d)"
  using assms
  by (auto simp: timeOfDay_def timeToAlarm_def setHours_def timeClip_def Let_def split: list.splits)

lemma offset_bounds:
  assumes "0 \<le> hh" "hh < 24" "0 \<le> mm" "mm < (60::int)"
  shows "0 \<le> hh * (60 * 60 * 1000) + mm * (60 * 1000)"
    and "hh * (60 * 60 * 1000) + mm * (60 * 1000) \<le> msPerDay - 60000"
proof -
  show "0 \<le> hh * (60 * 60 * 1000) + mm * (60 * 1000)" using assms by simp
  have "hh \<le> 23" "mm \<le> 59" using assms by simp_all
  then have "hh * (60 * 60 * 1000) + mm * (60 * 1000) \<le> 23 * (60 * 60 * 1000) + 59 * (60 * 1000)"
    by (intro add_mono mult_right_mono) simp_all
  then show "hh * (60 * 60 * 1000) + mm * (60 * 1000) \<le> msPerDay - 60000"
    by (simp add: msPerDay_def)
qed

lemma dayStart_bounds: "dayStart t \<le> t" "t < dayStart t + msPerDay"
proof -
  have "0 \<le> t mod msPerDay" "t mod msPerDay < msPerDay" by (simp_all add: msPerDay_def)
  then show "dayStart t \<le> t" "t < dayStart t + msPerDay"
    unfolding dayStart_def by linarith+
qed

text \<open>With the same offset in force at the reading and at the target, the target lies
  within a day of the reading.\<close>

lemma target_near:
  assumes "timeOfDay v hh mm"
    and "offsetAtLocal z (dayStart (localTime z now') + hh * (60 * 60 * 1000) + mm * (60 * 1000))
           = offsetAtUTC z now'"
  defines "target \<equiv> utcTime z (dayStart (localTime z now') + hh * (60 * 60 * 1000) + mm * (60 * 1000))"
  shows "now' - msPerDay < target" and "target \<le> now' + (msPerDay - 60000)"
proof -
  from assms(1) have r: "0 \<le> hh" "hh < 24" "0 \<le> mm" "mm < 60"
    by (auto simp: timeOfDay_def split: list.splits)
  define t where "t = hh * (60 * 60 * 1000) + mm * (60 * 1000)"
  define c where "c = offsetAtUTC z now'"
  define s where "s = dayStart (now' + c)"
  have t: "0 \<le> t" "t \<le> msPerDay - 60000" using offset_bounds [OF r] by (simp_all add: t_def)
  have s: "s \<le> now' + c" "now' + c < s + msPerDay"
    using dayStart_bounds [of "now' + c"] by (simp_all add: s_def)
  have "target = s + t - c"
    using assms(2) by (simp add: target_def utcTime_def localTime_def t_def c_def s_def)
  then show "now' - msPerDay < target" and "target \<le> now' + (msPerDay - 60000)"
    using t s by linarith+
qed

lemma target_valid:
  assumes "timeOfDay v hh mm"
    and "offsetAtLocal z (dayStart (localTime z now') + hh * (60 * 60 * 1000) + mm * (60 * 1000))
           = offsetAtUTC z now'"
    and "\<bar>now'\<bar> \<le> 8640000000000000 - msPerDay"
  shows "\<bar>utcTime z (dayStart (localTime z now') + hh * (60 * 60 * 1000) + mm * (60 * 1000))\<bar>
           \<le> 8640000000000000"
  using target_near [OF assms(1,2)] assms(3) by (simp add: msPerDay_def)

lemma raw_bounds:
  assumes "timeOfDay v hh mm"
    and "offsetAtLocal z (dayStart (localTime z now') + hh * (60 * 60 * 1000) + mm * (60 * 1000))
           = offsetAtUTC z now'"
    and "now \<le> now'" and "now' < now + 60000"
  defines "d \<equiv> utcTime z (dayStart (localTime z now') + hh * (60 * 60 * 1000) + mm * (60 * 1000)) - now"
  shows "- msPerDay < d" and "d < msPerDay"
  using target_near [OF assms(1,2)] assms(3,4) unfolding d_def by linarith+

lemma timeToAlarm_mod:
  assumes "timeOfDay v hh mm"
    and "offsetAtLocal z (dayStart (localTime z now') + hh * (60 * 60 * 1000) + mm * (60 * 1000))
           = offsetAtUTC z now'"
    and "now \<le> now'" and "now' < now + 60000"
    and "\<bar>now'\<bar> \<le> 8640000000000000 - msPerDay"
  shows "timeToAlarm z now now' v =
           Some ((utcTime z (dayStart (localTime z now') + hh * (60 * 60 * 1000) + mm * (60 * 1000))
                  - now) mod msPerDay)"
proof -
  let ?d = "utcTime z (dayStart (localTime z now') + hh * (60 * 60 * 1000) + mm * (60 * 1000)) - now"
  note b = raw_bounds [OF assms(1-4)]
  note raw = timeToAlarm_raw [OF assms(1) target_valid [OF assms(1,2,5)]]
  show ?thesis
  proof (cases "?d < 0")
    case True
    then have "(?d + msPerDay) mod msPerDay = ?d + msPerDay"
      using b by (intro mod_pos_pos_trivial) simp_all
    then have "?d mod msPerDay = ?d + msPerDay" by simp
    with True show ?thesis by (simp add: raw msPerDay_def)
  next
    case False
    then have "?d mod msPerDay = ?d" using b by simp
    with False show ?thesis by (simp add: raw)
  qed
qed

lemma dayStart_at:
  assumes "0 \<le> k" and "k < msPerDay"
  shows "dayStart (day * msPerDay + k) = day * msPerDay"
proof -
  have "(day * msPerDay + k) mod msPerDay = k mod msPerDay" by simp
  also have "\<dots> = k" using assms by simp
  finally show ?thesis by (simp add: dayStart_def)
qed

lemma setAlarm_pending:
  assumes "alarmTimeValue st \<noteq> []"
  shows "pendingTimeouts (setAlarm z now now' st) =
           pendingTimeouts st @ [(Suc (lastTimeoutId st), timeToAlarm z now now' (alarmTimeValue st), TriggerAlarm)]"
    and "alarmTimeoutId (setAlarm z now now' st) = Some (Suc (lastTimeoutId st))"
  using assms by (simp_all add: setAlarm_def Let_def)

text \<open>"07:30" entered when the local clock shows \<open>k\<close> milliseconds past midnight.\<close>

lemma timeToAlarm_0730:
  assumes "offsetAtUTC z t = c"
    and "offsetAtLocal z (day * msPerDay + (7 * 3600000 + 30 * 60000)) = c"
    and "\<bar>t\<bar> \<le> 8640000000000000 - msPerDay"
    and "t + c = day * msPerDay + k" and "0 \<le> k" and "k < msPerDay"
  shows "timeToAlarm z t t ''07:30'' =
           Some (if 27000000 - k < 0 then 27000000 - k + 86400000 else 27000000 - k)"
proof -
  have ds: "dayStart (localTime z t) = day * msPerDay"
    using dayStart_at [OF assms(5,6), of day] assms(1,4) by (simp add: localTime_def)
  have x: "dayStart (localTime z t) + 7 * (60 * 60 * 1000) + 30 * (60 * 1000)
             = day * msPerDay + (7 * 3600000 + 30 * 60000)"
    by (simp add: ds)
  have ol: "offsetAtLocal z (dayStart (localTime z t) + 7 * (60 * 60 * 1000) + 30 * (60 * 1000))
              = offsetAtUTC z t"
    unfolding x by (simp only: assms(1,2))
  have "day * msPerDay + (7 * 3600000 + 30 * 60000) - c - t = 27000000 - k"
    using assms(4) by simp
  then have u: "utcTime z (dayStart (localTime z t) + 7 * (60 * 60 * 1000) + 30 * (60 * 1000)) - t
             = 27000000 - k"
    unfolding utcTime_def x assms(2) .
  note raw = timeToAlarm_raw [OF timeOfDay_0730 target_valid [OF timeOfDay_0730 ol assms(3)]]
  show ?thesis unfolding raw u by (simp add: Let_def)
qed

text \<open>
  C2 (as amended). With a time of day in the input, the two clock readings of
  \<^verbatim>\<open>setAlarm\<close> less than a minute apart, and the offset of the local clock at the target
  time of day the one in force at the reading (no daylight-saving switch in between), the
  one-shot callback is scheduled with the delay \<open>(target - now) mod 24h\<close>. For the
  input "07:30", in any such zone and on any day: when the local clock shows 08:00 the
  delay is 23.5 hours, at 07:00 it is 30 minutes, and at 07:30:00.000 it is 0.
\<close>

theorem setAlarm_delay:
  assumes "timeOfDay (alarmTimeValue st) hh mm" and "now \<le> now'" and "now' < now + 60000"
    and "\<bar>now'\<bar> \<le> 8640000000000000 - msPerDay"
    and "offsetAtLocal z (dayStart (localTime z now') + hh * (60 * 60 * 1000) + mm * (60 * 1000))
           = offsetAtUTC z now'"
  shows "pendingTimeouts (setAlarm z now now' st) =
           pendingTimeouts st @
             [(Suc (lastTimeoutId st),
               Some ((utcTime z (dayStart (localTime z now') + hh * (60 * 60 * 1000) + mm * (60 * 1000))
                      - now) mod msPerDay),
               TriggerAlarm)]
       \<and> alarmTimeoutId (setAlarm z now now' st) = Some (Suc (lastTimeoutId st))
       \<and> (offsetAtUTC z t = c
            \<and> offsetAtLocal z (day * msPerDay + (7 * 3600000 + 30 * 60000)) = c
            \<and> \<bar>t\<bar> \<le> 8640000000000000 - msPerDay \<longrightarrow>
              (t + c = day * msPerDay + 8 * 3600000 \<longrightarrow>
                 timeToAlarm z t t ''07:30'' = Some (23 * 3600000 + 1800000))
            \<and> (t + c = day * msPerDay + 7 * 3600000 \<longrightarrow>
                 timeToAlarm z t t ''07:30'' = Some (30 * 60000))
            \<and> (t + c = day * msPerDay + (7 * 3600000 + 30 * 60000) \<longrightarrow>
                 timeToAlarm z t t ''07:30'' = Some 0))"
proof -
  note ne = timeOfDay_nonempty [OF assms(1)]
  have 1: "pendingTimeouts (setAlarm z now now' st) =
           pendingTimeouts st @
             [(Suc (lastTimeoutId st),
               Some ((utcTime z (dayStart (localTime z now') + hh * (60 * 60 * 1000) + mm * (60 * 1000))
                      - now) mod msPerDay),
               TriggerAlarm)]"
    by (simp only: setAlarm_pending(1) [OF ne] timeToAlarm_mod [OF assms(1,5,2,3,4)])
  have 2: "alarmTimeoutId (setAlarm z now now' st) = Some (Suc (lastTimeoutId st))"
    by (rule setAlarm_pending(2) [OF ne])
  have 3: "offsetAtUTC z t = c
            \<and> offsetAtLocal z (day * msPerDay + (7 * 3600000 + 30 * 60000)) = c
            \<and> \<bar>t\<bar> \<le> 8640000000000000 - msPerDay \<longrightarrow>
              (t + c = day * msPerDay + 8 * 3600000 \<longrightarrow>
                 timeToAlarm z t t ''07:30'' = Some (23 * 3600000 + 1800000))
            \<and> (t + c = day * msPerDay + 7 * 3600000 \<longrightarrow>
                 timeToAlarm z t t ''07:30'' = Some (30 * 60000))
            \<and> (t + c = day * msPerDay + (7 * 3600000 + 30 * 60000) \<longrightarrow>
                 timeToAlarm z t t ''07:30'' = Some 0)"
  proof (intro impI conjI; elim conjE)
    assume h: "offsetAtUTC z t = c"
      "offsetAtLocal z (day * msPerDay + (7 * 3600000 + 30 * 60000)) = c"
      "\<bar>t\<bar> \<le> 8640000000000000 - msPerDay"
    { assume "t + c = day * msPerDay + 8 * 3600000"
      from timeToAlarm_0730 [OF h this]
      show "timeToAlarm z t t ''07:30'' = Some (23 * 3600000 + 1800000)"
        by (simp add: msPerDay_def) }
    { assume "t + c = day * msPerDay + 7 * 3600000"
      from timeToAlarm_0730 [OF h this]
      show "timeToAlarm z t t ''07:30'' = Some (30 * 60000)"
        by (simp add: msPerDay_def) }
    { assume "t + c = day * msPerDay + (7 * 3600000 + 30 * 60000)"
      from timeToAlarm_0730 [OF h this]
      show "timeToAlarm z t t ''07:30'' = Some 0"
        by (simp add: msPerDay_def) }
  qed
  from 1 2 3 show ?thesis by (intro conjI)
qed

theorem setAlarm_delay_witness:
  "timeOfDay (alarmTimeValue (alarmIdleState\<lparr>alarmTimeValue := ''07:30''\<rparr>)) 7 30
   \<and> (1793361600000::int) \<le> 1793361600003 \<and> (1793361600003::int) < 1793361600000 + 60000
   \<and> \<bar>1793361600003::int\<bar> \<le> 8640000000000000 - msPerDay
   \<and> offsetAtLocal newYorkAutumn2026
         (dayStart (localTime newYorkAutumn2026 1793361600003) + 7 * (60 * 60 * 1000) + 30 * (60 * 1000))
       = offsetAtUTC newYorkAutumn2026 1793361600003
   \<and> pendingTimeouts (setAlarm newYorkAutumn2026 1793361600000 1793361600003
         (alarmIdleState\<lparr>alarmTimeValue := ''07:30''\<rparr>))
       = [(1, Some 84600000, TriggerAlarm)]"
proof -
  let ?st = "alarmIdleState\<lparr>alarmTimeValue := ''07:30''\<rparr>"
  let ?z = newYorkAutumn2026
  have h: "timeOfDay (alarmTimeValue ?st) 7 30" by (simp add: timeOfDay_0730)
  have a: "(1793361600000::int) \<le> 1793361600003"
    and b: "(1793361600003::int) < 1793361600000 + 60000"
    and r: "\<bar>1793361600003::int\<bar> \<le> 8640000000000000 - msPerDay"
    by (simp_all add: msPerDay_def)
  have d: "dayStart (localTime ?z 1793361600003) = 1793318400000"
    by (simp add: dayStart_def localTime_def newYorkAutumn2026_def msPerDay_def)
  have o: "offsetAtLocal ?z (dayStart (localTime ?z 1793361600003) + 7 * (60 * 60 * 1000) + 30 * (60 * 1000))
             = offsetAtUTC ?z 1793361600003"
    unfolding d by (simp add: newYorkAutumn2026_def)
  from setAlarm_delay [OF h a b r o, where t = 0 and c = 0 and day = 0]
  have "pendingTimeouts (setAlarm ?z 1793361600000 1793361600003 ?st) =
          pendingTimeouts ?st @
            [(Suc (lastTimeoutId ?st),
              Some ((utcTime ?z (dayStart (localTime ?z 1793361600003) + 7 * (60 * 60 * 1000) + 30 * (60 * 1000))
                      - 1793361600000) mod msPerDay),
              TriggerAlarm)]"
    by (rule conjunct1)
  then have p: "pendingTimeouts (setAlarm ?z 1793361600000 1793361600003 ?st)
                  = [(1, Some 84600000, TriggerAlarm)]"
    unfolding d by (simp add: alarmIdleState_def utcTime_def newYorkAutumn2026_def msPerDay_def)
  from h a b r o p show ?thesis by (intro conjI)
qed

text \<open>The claim as first stated has the delay at the exact boundary be 24 hours, and has
  it equal \<open>(target - now) mod 24h\<close> on every day. In a zone that keeps UTC, at
  07:30:00.000 with the input "07:30" the raw difference is 0, which is not negative, so
  nothing is added. In New York at 23:30 on 1 November 2026, a day of 25 hours, with the
  input "00:00" the raw difference is 24.5 hours back: the delay computed is -30
  minutes, where the formula gives 23.5 hours.\<close>

theorem setAlarm_delay_counterexample:
  "timeToAlarm utcZone 27000000 27000000 ''07:30'' = Some 0
   \<and> timeToAlarm utcZone 27000000 27000000 ''07:30'' \<noteq> Some (24 * 60 * 60 * 1000)
   \<and> pendingTimeouts (setAlarm utcZone 27000000 27000000 (alarmIdleState\<lparr>alarmTimeValue := ''07:30''\<rparr>))
       = [(1, Some 0, TriggerAlarm)]
   \<and> timeToAlarm newYorkAutumn2026 1793593800000 1793593800000 ''00:00'' = Some (- 1800000)
   \<and> (utcTime newYorkAutumn2026
          (dayStart (localTime newYorkAutumn2026 1793593800000) + 0 * (60 * 60 * 1000) + 0 * (60 * 1000))
        - 1793593800000) mod msPerDay = 84600000"
proof -
  have 1: "timeToAlarm utcZone 27000000 27000000 ''07:30'' = Some 0"
    by code_simp
  then have 2: "timeToAlarm utcZone 27000000 27000000 ''07:30'' \<noteq> Some (24 * 60 * 60 * 1000)"
    by simp
  have 3: "pendingTimeouts (setAlarm utcZone 27000000 27000000 (alarmIdleState\<lparr>alarmTimeValue := ''07:30''\<rparr>))
       = [(1, Some 0, TriggerAlarm)]"
    by (simp add: setAlarm_def Let_def 1) (simp add: alarmIdleState_def)
  have 4: "timeToAlarm newYorkAutumn2026 1793593800000 1793593800000 ''00:00'' = Some (- 1800000)"
    by code_simp
  have 5: "(utcTime newYorkAutumn2026
          (dayStart (localTime newYorkAutumn2026 1793593800000) + 0 * (60 * 60 * 1000) + 0 * (60 * 1000))
        - 1793593800000) mod msPerDay = 84600000"
    by (simp add: utcTime_def dayStart_def localTime_def newYorkAutumn2026_def msPerDay_def)
  from 1 2 3 4 5 show ?thesis by (intro conjI)
qed




lemma clearAlarm_controls:
  "alarmTimeoutId (clearAlarm st) = None"
  "alarmSoundPaused (clearAlarm st)"
  "alarmSoundCurrentTime (clearAlarm st) = 0"
  "\<not> alarmSoundLoop (clearAlarm st)"
  "\<not> setAlarmBtnDisabled (clearAlarm st)"
  "clearAlarmBtnDisabled (clearAlarm st)"
  "clearAlarmBtnText (clearAlarm st) = ''Clear Alarm''"
  "\<not> alarmTimeInputDisabled (clearAlarm st)"
  "alarmTimeValue (clearAlarm st) = []"
  "alarming (clearAlarm st) = map_option (\<lambda>_. False) (alarming st)"
  "alarmStatus (clearAlarm st) = AlarmCleared"
  by (simp_all add: clearAlarm_def Let_def split: option.splits)

lemma clearAlarm_pending:
  "pendingTimeouts (clearAlarm st) =
     (case alarmTimeoutId st of None \<Rightarrow> pendingTimeouts st | Some i \<Rightarrow> clearTimeout i (pendingTimeouts st))
     @ [(Suc (lastTimeoutId st), Some 2000, ExpireCleared)]"
  by (simp add: clearAlarm_def Let_def split: option.splits)

lemma clearAlarm_cancels:
  assumes "alarmQueueOwned st"
  shows "\<not> list_ex (\<lambda>e. snd (snd e) = TriggerAlarm) (pendingTimeouts (clearAlarm st))"
proof (cases "alarmTimeoutId st")
  case None
  with assms show ?thesis
    by (auto simp: clearAlarm_pending alarmQueueOwned_def list_ex_iff list_all_iff)
next
  case (Some i)
  with assms show ?thesis
    by (auto simp: clearAlarm_pending alarmQueueOwned_def clearTimeout_def list_ex_iff list_all_iff)
qed

lemma clearAlarm_idle:
  assumes "alarmQueueOwned st"
  shows "alarmIdle (clearAlarm st)"
  using clearAlarm_cancels [OF assms]
  by (cases "alarming st") (simp_all add: alarmIdle_def clearAlarm_controls)

lemma alarmIdle_owned: "alarmIdle st \<Longrightarrow> alarmQueueOwned st"
  by (auto simp: alarmIdle_def alarmQueueOwned_def list_ex_iff list_all_iff)

lemma setAlarm_owned:
  assumes "alarmIdle st"
  shows "alarmQueueOwned (setAlarm z now now' st)"
  using assms
  by (auto simp: setAlarm_def alarmIdle_def alarmQueueOwned_def Let_def list_ex_iff list_all_iff)

lemma setAlarm_consistent:
  assumes "alarmIdle st"
  shows "alarmConsistent (setAlarm z now now' st)"
proof (cases "alarmTimeValue st = []")
  case True
  with assms show ?thesis by (simp add: setAlarm_def alarmConsistent_def alarmIdle_def)
next
  case False
  then have "setAlarmBtnDisabled (setAlarm z now now' st)"
    "\<not> clearAlarmBtnDisabled (setAlarm z now now' st)"
    by (simp_all add: setAlarm_def Let_def)
  with setAlarm_owned [OF assms] show ?thesis by (simp add: alarmConsistent_def)
qed

lemma triggerAlarm_owned: "alarmQueueOwned st \<Longrightarrow> alarmQueueOwned (triggerAlarm playOk st)"
  by (simp add: triggerAlarm_def alarmQueueOwned_def)

lemma fireTimeout_owned:
  assumes "alarmQueueOwned st"
  shows "alarmQueueOwned (fireTimeout playOk i st)"
proof -
  have c: "alarmQueueOwned (st\<lparr>pendingTimeouts := clearTimeout i (pendingTimeouts st)\<rparr>)"
    using assms by (auto simp: alarmQueueOwned_def clearTimeout_def list_all_iff)
  show ?thesis
  proof (cases "filter (\<lambda>e. fst e = i) (pendingTimeouts st)")
    case Nil
    with assms show ?thesis by (simp add: fireTimeout_def)
  next
    case (Cons e es)
    show ?thesis
    proof (cases "snd (snd e)")
      case TriggerAlarm
      with Cons triggerAlarm_owned [OF c] show ?thesis by (simp add: fireTimeout_def Let_def)
    next
      case ExpireCleared
      with Cons c show ?thesis by (simp add: fireTimeout_def Let_def alarmQueueOwned_def)
    qed
  qed
qed

lemma fireTimeout_buttons:
  "setAlarmBtnDisabled (fireTimeout playOk i st) = setAlarmBtnDisabled st"
  "clearAlarmBtnDisabled (fireTimeout playOk i st) = clearAlarmBtnDisabled st"
  by (simp_all add: fireTimeout_def triggerAlarm_def Let_def
      split: list.splits alarm_callback.splits)

lemma fireTimeout_idle:
  assumes "alarmIdle st"
  shows "alarmIdle (fireTimeout playOk i st)"
proof (cases "filter (\<lambda>e. fst e = i) (pendingTimeouts st)")
  case Nil
  with assms show ?thesis by (simp add: fireTimeout_def)
next
  case (Cons e es)
  then have "e \<in> set (filter (\<lambda>e. fst e = i) (pendingTimeouts st))" by simp
  then have "e \<in> set (pendingTimeouts st)" by simp
  with assms have e: "snd (snd e) = ExpireCleared"
    by (cases "snd (snd e)") (auto simp: alarmIdle_def list_ex_iff)
  have "alarmIdle (st\<lparr>pendingTimeouts := clearTimeout i (pendingTimeouts st)\<rparr>)"
    using assms by (auto simp: alarmIdle_def clearTimeout_def list_ex_iff)
  with Cons e show ?thesis by (simp add: fireTimeout_def Let_def alarmIdle_def)
qed

lemma alarmStep_consistent:
  assumes "alarmConsistent st"
  shows "alarmConsistent (alarmStep z playOk e st)"
proof (cases e)
  case (TypeTime v)
  have "alarmConsistent (st\<lparr>alarmTimeValue := v\<rparr>)"
    using assms by (simp add: alarmConsistent_def alarmIdle_def alarmQueueOwned_def)
  with assms TypeTime show ?thesis by (simp add: alarmStep_def)
next
  case (ClickSet now now')
  show ?thesis
  proof (cases "setAlarmBtnDisabled st")
    case True
    with assms ClickSet show ?thesis by (simp add: alarmStep_def)
  next
    case False
    with assms have "alarmIdle st" by (auto simp: alarmConsistent_def)
    from setAlarm_consistent [OF this] False ClickSet show ?thesis by (simp add: alarmStep_def)
  qed
next
  case ClickClear
  show ?thesis
  proof (cases "clearAlarmBtnDisabled st")
    case True
    with assms ClickClear show ?thesis by (simp add: alarmStep_def)
  next
    case False
    with assms have "alarmQueueOwned st" by (auto simp: alarmConsistent_def alarmIdle_def)
    from clearAlarm_idle [OF this] False ClickClear show ?thesis
      by (simp add: alarmStep_def alarmConsistent_def)
  qed
next
  case (TimeoutFires i)
  show ?thesis
  proof (cases "alarmIdle st")
    case True
    from fireTimeout_idle [OF this] TimeoutFires show ?thesis
      by (simp add: alarmStep_def alarmConsistent_def)
  next
    case False
    with assms have "alarmQueueOwned st" "setAlarmBtnDisabled st" "\<not> clearAlarmBtnDisabled st"
      by (auto simp: alarmConsistent_def)
    with fireTimeout_owned [of st playOk i] TimeoutFires show ?thesis
      by (simp add: alarmStep_def alarmConsistent_def fireTimeout_buttons)
  qed
qed

lemma alarmRun_consistent:
  "alarmConsistent st \<Longrightarrow> alarmConsistent (alarmRun z playOk es st)"
  unfolding alarmRun_def
  by (induction es arbitrary: st) (simp_all add: alarmStep_consistent)

lemma alarmArmedState_eq:
  "alarmArmedState =
     \<lparr> alarmTimeoutId = Some 1, pendingTimeouts = [(1, Some 84600000, TriggerAlarm)],
       lastTimeoutId = 1, alarmTimeValue = ''07:30'', alarmTimeInputDisabled = True,
       setAlarmBtnDisabled = True, clearAlarmBtnDisabled = False,
       clearAlarmBtnText = ''Clear Alarm'', alarmStatus = AlarmSetFor (Some 113400000),
       alarmSoundPaused = True, alarmSoundCurrentTime = 0, alarmSoundLoop = False,
       alarming = Some False \<rparr>"
  by code_simp

lemma alarmRingingState_eq:
  "alarmRingingState =
     \<lparr> alarmTimeoutId = Some 1, pendingTimeouts = [],
       lastTimeoutId = 1, alarmTimeValue = ''07:30'', alarmTimeInputDisabled = True,
       setAlarmBtnDisabled = True, clearAlarmBtnDisabled = False,
       clearAlarmBtnText = ''Stop Alarm'', alarmStatus = WakeUp,
       alarmSoundPaused = False, alarmSoundCurrentTime = 0, alarmSoundLoop = True,
       alarming = Some True \<rparr>"
  by (simp add: alarmRingingState_def alarmArmedState_eq alarmStep_def fireTimeout_def
      clearTimeout_def triggerAlarm_def Let_def)

text \<open>
  C7. The panel starts Idle and is driven by its events, so it is always Idle or else
  Armed or Ringing with the clear control enabled. In the Armed or Ringing state a click
  on the clear control runs \<^verbatim>\<open>clearAlarm\<close>, which cancels the pending one-shot, stops
  and rewinds the alert and puts every control at its Idle default. In the Idle state the
  clear control is disabled and the click changes nothing.
\<close>

theorem clearAlarm_click:
  assumes "alarmConsistent st"
  shows "(\<not> alarmIdle st \<longrightarrow>
            alarmStep z playOk ClickClear st = clearAlarm st
          \<and> alarmControls (alarmStep z playOk ClickClear st) =
              \<lparr> c_alarmTimeoutId = None, c_alarmQueued = False,
                c_soundPaused = True, c_soundCurrentTime = 0, c_soundLoop = False,
                c_setAlarmBtnDisabled = False, c_clearAlarmBtnDisabled = True,
                c_clearAlarmBtnText = ''Clear Alarm'', c_alarmTimeInputDisabled = False,
                c_alarmTimeValue = [], c_alarming = map_option (\<lambda>_. False) (alarming st) \<rparr>
          \<and> alarmIdle (alarmStep z playOk ClickClear st))
       \<and> (alarmIdle st \<longrightarrow> alarmStep z playOk ClickClear st = st)
       \<and> alarmConsistent (alarmRun z playOk es st)"
proof -
  have 1: "\<not> alarmIdle st \<longrightarrow>
            alarmStep z playOk ClickClear st = clearAlarm st
          \<and> alarmControls (alarmStep z playOk ClickClear st) =
              \<lparr> c_alarmTimeoutId = None, c_alarmQueued = False,
                c_soundPaused = True, c_soundCurrentTime = 0, c_soundLoop = False,
                c_setAlarmBtnDisabled = False, c_clearAlarmBtnDisabled = True,
                c_clearAlarmBtnText = ''Clear Alarm'', c_alarmTimeInputDisabled = False,
                c_alarmTimeValue = [], c_alarming = map_option (\<lambda>_. False) (alarming st) \<rparr>
          \<and> alarmIdle (alarmStep z playOk ClickClear st)"
  proof
    assume "\<not> alarmIdle st"
    with assms have o: "alarmQueueOwned st" and c: "\<not> clearAlarmBtnDisabled st"
      by (auto simp: alarmConsistent_def)
    have s: "alarmStep z playOk ClickClear st = clearAlarm st"
      using c by (simp add: alarmStep_def)
    have a: "alarmControls (clearAlarm st) =
              \<lparr> c_alarmTimeoutId = None, c_alarmQueued = False,
                c_soundPaused = True, c_soundCurrentTime = 0, c_soundLoop = False,
                c_setAlarmBtnDisabled = False, c_clearAlarmBtnDisabled = True,
                c_clearAlarmBtnText = ''Clear Alarm'', c_alarmTimeInputDisabled = False,
                c_alarmTimeValue = [], c_alarming = map_option (\<lambda>_. False) (alarming st) \<rparr>"
      using clearAlarm_cancels [OF o] by (simp add: alarmControls_def clearAlarm_controls)
    from s a clearAlarm_idle [OF o]
    show "alarmStep z playOk ClickClear st = clearAlarm st
          \<and> alarmControls (alarmStep z playOk ClickClear st) =
              \<lparr> c_alarmTimeoutId = None, c_alarmQueued = False,
                c_soundPaused = True, c_soundCurrentTime = 0, c_soundLoop = False,
                c_setAlarmBtnDisabled = False, c_clearAlarmBtnDisabled = True,
                c_clearAlarmBtnText = ''Clear Alarm'', c_alarmTimeInputDisabled = False,
                c_alarmTimeValue = [], c_alarming = map_option (\<lambda>_. False) (alarming st) \<rparr>
          \<and> alarmIdle (alarmStep z playOk ClickClear st)"
      by simp
  qed
  have 2: "alarmIdle st \<longrightarrow> alarmStep z playOk ClickClear st = st"
    by (simp add: alarmIdle_def alarmStep_def)
  from 1 2 alarmRun_consistent [OF assms, of z playOk es] show ?thesis by (intro conjI)
qed

theorem clearAlarm_click_witness:
  "alarmConsistent alarmIdleState
   \<and> alarmIdle alarmIdleState
   \<and> alarmStep utcZone True ClickClear alarmIdleState = alarmIdleState
   \<and> alarmConsistent alarmArmedState \<and> \<not> alarmIdle alarmArmedState
   \<and> pendingTimeouts alarmArmedState = [(1, Some 84600000, TriggerAlarm)]
   \<and> pendingTimeouts (alarmStep utcZone True ClickClear alarmArmedState)
       = [(2, Some 2000, ExpireCleared)]
   \<and> alarmIdle (alarmStep utcZone True ClickClear alarmArmedState)
   \<and> alarmConsistent alarmRingingState \<and> \<not> alarmIdle alarmRingingState
   \<and> alarmSoundLoop alarmRingingState \<and> \<not> alarmSoundPaused alarmRingingState
   \<and> alarmIdle (alarmStep utcZone True ClickClear alarmRingingState)
   \<and> c_alarming (alarmControls (alarmStep utcZone True ClickClear alarmRingingState)) = Some False"
proof -
  have i: "alarmIdle alarmIdleState"
    by (simp add: alarmIdle_def alarmIdleState_def)
  then have ci: "alarmConsistent alarmIdleState" by (simp add: alarmConsistent_def)
  note t0 = clearAlarm_click [OF ci, where z = utcZone and playOk = True]
  from t0 [where es = "[]"] i
  have n: "alarmStep utcZone True ClickClear alarmIdleState = alarmIdleState" by blast
  from t0 [where es = "[TypeTime ''07:30'', ClickSet 28800000 28800000]"]
  have ca: "alarmConsistent alarmArmedState" by (simp add: alarmArmedState_def)
  from t0 [where es = "[TypeTime ''07:30'', ClickSet 28800000 28800000, TimeoutFires 1]"]
  have cr: "alarmConsistent alarmRingingState"
    by (simp add: alarmRingingState_def alarmArmedState_def alarmRun_def)
  have na: "\<not> alarmIdle alarmArmedState" and nr: "\<not> alarmIdle alarmRingingState"
    by (simp_all add: alarmIdle_def alarmArmedState_eq alarmRingingState_eq)
  have pa: "pendingTimeouts alarmArmedState = [(1, Some 84600000, TriggerAlarm)]"
    by (simp add: alarmArmedState_eq)
  have s: "alarmSoundLoop alarmRingingState" "\<not> alarmSoundPaused alarmRingingState"
    "alarming alarmRingingState = Some True"
    by (simp_all add: alarmRingingState_eq)
  note ta = clearAlarm_click [OF ca, where z = utcZone and playOk = True and es = "[]"]
    and tr = clearAlarm_click [OF cr, where z = utcZone and playOk = True and es = "[]"]
  from ta na have ea: "alarmStep utcZone True ClickClear alarmArmedState = clearAlarm alarmArmedState"
    and ia: "alarmIdle (alarmStep utcZone True ClickClear alarmArmedState)"
    by blast+
  have qa: "pendingTimeouts (alarmStep utcZone True ClickClear alarmArmedState)
       = [(2, Some 2000, ExpireCleared)]"
    unfolding ea by (simp add: clearAlarm_pending alarmArmedState_eq clearTimeout_def)
  from tr nr have ir: "alarmIdle (alarmStep utcZone True ClickClear alarmRingingState)"
    and ac: "alarmControls (alarmStep utcZone True ClickClear alarmRingingState) =
              \<lparr> c_alarmTimeoutId = None, c_alarmQueued = False,
                c_soundPaused = True, c_soundCurrentTime = 0, c_soundLoop = False,
                c_setAlarmBtnDisabled = False, c_clearAlarmBtnDisabled = True,
                c_clearAlarmBtnText = ''Clear Alarm'', c_alarmTimeInputDisabled = False,
                c_alarmTimeValue = [],
                c_alarming = map_option (\<lambda>_. False) (alarming alarmRingingState) \<rparr>"
    by blast+
  have c: "c_alarming (alarmControls (alarmStep utcZone True ClickClear alarmRingingState))
      = Some False"
    unfolding ac by (simp add: s)
  from ci i n ca na pa qa ia cr nr s(1,2) ir c show ?thesis by (intro conjI)
qed

text \<open>
  C10. From every state, a second \<^verbatim>\<open>clearAlarm\<close> right after the first leaves the pending
  handle, the alert (paused, position, loop flag), the enablement and labels of the
  controls, the content of the input and the \<^verbatim>\<open>alarming\<close> flag as the first call left
  them.
\<close>

theorem clearAlarm_idempotent:
  "alarmControls (clearAlarm (clearAlarm st)) = alarmControls (clearAlarm st)"
  by (simp add: alarmControls_def clearAlarm_controls clearAlarm_pending option.map_comp comp_def)


section \<open>Countdown timer: properties\<close>

lemma parseField_digits:
  assumes "list_all isDigit v" and "v \<noteq> []"
  shows "parseField v = int (digitsValue 0 v)"
  by (simp add: parseField_def parseInt_digits [OF assms])

lemma parseField_examples:
  "parseField [] = 0" "parseField ''0'' = 0" "parseField ''1'' = 1" "parseField ''30'' = 30"
  "parseField ''abc'' = 0" "parseField ''-1'' = - 1" "parseField ''90'' = 90"
  by (simp_all add: parseField_def parseInt_def stripSign_def isWhiteSpace_def isDigit_def
      digitVal_def)

lemma startTimer_noop:
  "parseField (minutesValue st) * 60 + parseField (secondsValue st) \<le> 0 \<Longrightarrow> startTimer st = st"
  by (simp add: startTimer_def Let_def)

lemma startTimer_started:
  assumes "0 < parseField (minutesValue st) * 60 + parseField (secondsValue st)"
  shows "secondsRemaining (startTimer st) = parseField (minutesValue st) * 60 + parseField (secondsValue st)"
    and "timerIntervalId (startTimer st) = Some (Suc (lastIntervalId st))"
    and "activeIntervals (startTimer st) = activeIntervals st @ [Suc (lastIntervalId st)]"
    and "\<not> isPaused (startTimer st)"
    and "timerFinished (startTimer st) = timerFinished st"
    and "timerSoundLoop (startTimer st) = timerSoundLoop st"
    and "timerSoundPaused (startTimer st) = timerSoundPaused st"
  using assms by (simp_all add: startTimer_def Let_def updateTimerDisplay_def)

lemma startTimer_running:
  assumes "0 < parseField (minutesValue st) * 60 + parseField (secondsValue st)"
    and "activeIntervals st = []"
  shows "timerRunning (startTimer st)"
  using assms startTimer_started [OF assms(1)] by (simp add: timerRunning_def)

lemma elapseSecond_running: "timerRunning st \<Longrightarrow> elapseSecond playOk st = tick playOk st"
  by (auto simp: timerRunning_def elapseSecond_def split: option.splits)

lemma elapseSecond_halted: "activeIntervals st = [] \<Longrightarrow> elapseSecond playOk st = st"
  by (simp add: elapseSecond_def)

lemma tick_running:
  assumes "timerRunning st" and "1 < secondsRemaining st"
  shows "timerRunning (tick playOk st)"
    and "secondsRemaining (tick playOk st) = secondsRemaining st - 1"
    and "timerFinished (tick playOk st) = timerFinished st"
    and "timerSoundLoop (tick playOk st) = timerSoundLoop st"
    and "timerSoundPaused (tick playOk st) = timerSoundPaused st"
  using assms
  by (auto simp: timerRunning_def tick_def Let_def updateTimerDisplay_def split: option.splits)

lemma tick_last:
  assumes "timerRunning st" and "secondsRemaining st = 1"
  shows "secondsRemaining (tick playOk st) = 0"
    and "activeIntervals (tick playOk st) = []"
    and "timerSoundLoop (tick playOk st)"
    and "timerSoundPaused (tick playOk st) = (if playOk then False else timerSoundPaused st)"
    and "timerFinished (tick playOk st) = map_option (\<lambda>_. True) (timerFinished st)"
  using assms
  by (auto simp: timerRunning_def tick_def Let_def updateTimerDisplay_def clearInterval_def
      split: option.splits)

lemma countdown:
  assumes "timerRunning st" and "int k < secondsRemaining st"
  shows "timerRunning ((elapseSecond playOk ^^ k) st)
       \<and> secondsRemaining ((elapseSecond playOk ^^ k) st) = secondsRemaining st - int k
       \<and> timerFinished ((elapseSecond playOk ^^ k) st) = timerFinished st
       \<and> timerSoundLoop ((elapseSecond playOk ^^ k) st) = timerSoundLoop st
       \<and> timerSoundPaused ((elapseSecond playOk ^^ k) st) = timerSoundPaused st"
  using assms(2)
proof (induction k)
  case 0
  with assms(1) show ?case by simp
next
  case (Suc k)
  let ?s = "(elapseSecond playOk ^^ k) st"
  from Suc have ih: "timerRunning ?s" "secondsRemaining ?s = secondsRemaining st - int k"
    "timerFinished ?s = timerFinished st" "timerSoundLoop ?s = timerSoundLoop st"
    "timerSoundPaused ?s = timerSoundPaused st"
    by simp_all
  from Suc.prems ih(2) have gt: "1 < secondsRemaining ?s" by simp
  have step: "(elapseSecond playOk ^^ Suc k) st = tick playOk ?s"
    by (simp add: elapseSecond_running [OF ih(1)])
  show ?case
    unfolding step using tick_running [OF ih(1) gt, of playOk] ih by simp
qed

lemma countdown_finishes:
  assumes "timerRunning st" and "secondsRemaining st = int n"
  shows "secondsRemaining ((elapseSecond playOk ^^ n) st) = 0
       \<and> activeIntervals ((elapseSecond playOk ^^ n) st) = []
       \<and> timerSoundLoop ((elapseSecond playOk ^^ n) st)
       \<and> timerSoundPaused ((elapseSecond playOk ^^ n) st) = (if playOk then False else timerSoundPaused st)
       \<and> timerFinished ((elapseSecond playOk ^^ n) st) = map_option (\<lambda>_. True) (timerFinished st)"
proof -
  from assms have "n \<noteq> 0" by (auto simp: timerRunning_def)
  then obtain k where n: "n = Suc k" by (cases n) auto
  let ?s = "(elapseSecond playOk ^^ k) st"
  have "int k < secondsRemaining st" using assms(2) n by simp
  from countdown [OF assms(1) this, of playOk]
  have r: "timerRunning ?s" "secondsRemaining ?s = 1" "timerFinished ?s = timerFinished st"
    "timerSoundPaused ?s = timerSoundPaused st"
    using assms(2) n by simp_all
  have step: "(elapseSecond playOk ^^ n) st = tick playOk ?s"
    by (simp add: n elapseSecond_running [OF r(1)])
  show ?thesis
    unfolding step using tick_last [OF r(1,2), of playOk] r(3,4) by (cases playOk) simp_all
qed

lemma parseField_parseInt: "parseField v = (case parseInt v of None \<Rightarrow> 0 | Some n \<Rightarrow> n)"
  by (simp add: parseField_def split: option.splits)

text \<open>
  C3 (as amended). \<^verbatim>\<open>startTimer\<close> reads each field with \<^verbatim>\<open>parseInt(., 10)\<close> (a run of
  digits reads as its number, a field without a leading number as 0). For fields whose
  numbers are in the range where the script's arithmetic is exact
  (|minutes| * 60 + |seconds| at most \<open>maxSafeInteger\<close>), with \<open>totalSeconds\<close> =
  minutes * 60 + seconds of the numbers read: if \<open>totalSeconds \<le> 0\<close> the state is
  unchanged; otherwise the remaining time is set to exactly \<open>totalSeconds\<close>, and, started
  with no tick running and the panel not finished, the timer is still counting after
  every \<open>k < totalSeconds\<close> seconds, with \<open>totalSeconds - k\<close> remaining, and after exactly
  \<open>totalSeconds\<close> seconds it is at 0 with the tick stopped, the sound looping and the
  panel marked finished.
\<close>

theorem startTimer_total:
  assumes "totalSeconds = parseField (minutesValue st) * 60 + parseField (secondsValue st)"
    and "activeIntervals st = []" and "timerFinished st = Some False"
    and "\<bar>parseField (minutesValue st)\<bar> * 60 + \<bar>parseField (secondsValue st)\<bar> \<le> maxSafeInteger"
  shows "parseField (minutesValue st) = (case parseInt (minutesValue st) of None \<Rightarrow> 0 | Some n \<Rightarrow> n)
       \<and> parseField (secondsValue st) = (case parseInt (secondsValue st) of None \<Rightarrow> 0 | Some n \<Rightarrow> n)
       \<and> (list_all isDigit v \<and> v \<noteq> [] \<and> int (digitsValue 0 v) \<le> maxSafeInteger \<longrightarrow>
            parseField v = int (digitsValue 0 v))
       \<and> (totalSeconds \<le> 0 \<longrightarrow> startTimer st = st)
       \<and> (0 < totalSeconds \<longrightarrow>
             secondsRemaining (startTimer st) = totalSeconds
           \<and> (\<forall>k < nat totalSeconds.
                 secondsRemaining ((elapseSecond playOk ^^ k) (startTimer st)) = totalSeconds - int k
               \<and> activeIntervals ((elapseSecond playOk ^^ k) (startTimer st)) \<noteq> []
               \<and> timerFinished ((elapseSecond playOk ^^ k) (startTimer st)) = Some False)
           \<and> secondsRemaining ((elapseSecond playOk ^^ nat totalSeconds) (startTimer st)) = 0
           \<and> activeIntervals ((elapseSecond playOk ^^ nat totalSeconds) (startTimer st)) = []
           \<and> timerSoundLoop ((elapseSecond playOk ^^ nat totalSeconds) (startTimer st))
           \<and> timerFinished ((elapseSecond playOk ^^ nat totalSeconds) (startTimer st)) = Some True)"
proof -
  have 1: "totalSeconds \<le> 0 \<longrightarrow> startTimer st = st"
    using startTimer_noop [of st] assms(1) by simp
  have 2: "0 < totalSeconds \<longrightarrow>
             secondsRemaining (startTimer st) = totalSeconds
           \<and> (\<forall>k < nat totalSeconds.
                 secondsRemaining ((elapseSecond playOk ^^ k) (startTimer st)) = totalSeconds - int k
               \<and> activeIntervals ((elapseSecond playOk ^^ k) (startTimer st)) \<noteq> []
               \<and> timerFinished ((elapseSecond playOk ^^ k) (startTimer st)) = Some False)
           \<and> secondsRemaining ((elapseSecond playOk ^^ nat totalSeconds) (startTimer st)) = 0
           \<and> activeIntervals ((elapseSecond playOk ^^ nat totalSeconds) (startTimer st)) = []
           \<and> timerSoundLoop ((elapseSecond playOk ^^ nat totalSeconds) (startTimer st))
           \<and> timerFinished ((elapseSecond playOk ^^ nat totalSeconds) (startTimer st)) = Some True"
  proof
    assume pos: "0 < totalSeconds"
    then have p: "0 < parseField (minutesValue st) * 60 + parseField (secondsValue st)"
      using assms(1) by simp
    let ?s = "startTimer st"
    have run: "timerRunning ?s" by (rule startTimer_running [OF p assms(2)])
    have rem: "secondsRemaining ?s = totalSeconds"
      using startTimer_started(1) [OF p] assms(1) by simp
    have fin: "timerFinished ?s = Some False"
      using startTimer_started(5) [OF p] assms(3) by simp
    have before: "\<forall>k < nat totalSeconds.
                 secondsRemaining ((elapseSecond playOk ^^ k) ?s) = totalSeconds - int k
               \<and> activeIntervals ((elapseSecond playOk ^^ k) ?s) \<noteq> []
               \<and> timerFinished ((elapseSecond playOk ^^ k) ?s) = Some False"
    proof (intro allI impI)
      fix k assume "k < nat totalSeconds"
      then have "int k < secondsRemaining ?s" using rem by simp
      from countdown [OF run this, of playOk]
      have c: "timerRunning ((elapseSecond playOk ^^ k) ?s)"
        "secondsRemaining ((elapseSecond playOk ^^ k) ?s) = secondsRemaining ?s - int k"
        "timerFinished ((elapseSecond playOk ^^ k) ?s) = timerFinished ?s"
        by simp_all
      from c(1) have "activeIntervals ((elapseSecond playOk ^^ k) ?s) \<noteq> []"
        by (auto simp: timerRunning_def split: option.splits)
      with c(2,3) rem fin
      show "secondsRemaining ((elapseSecond playOk ^^ k) ?s) = totalSeconds - int k
               \<and> activeIntervals ((elapseSecond playOk ^^ k) ?s) \<noteq> []
               \<and> timerFinished ((elapseSecond playOk ^^ k) ?s) = Some False"
        by simp
    qed
    have "secondsRemaining ?s = int (nat totalSeconds)" using rem pos by simp
    from countdown_finishes [OF run this, of playOk] fin
    have after: "secondsRemaining ((elapseSecond playOk ^^ nat totalSeconds) ?s) = 0"
      "activeIntervals ((elapseSecond playOk ^^ nat totalSeconds) ?s) = []"
      "timerSoundLoop ((elapseSecond playOk ^^ nat totalSeconds) ?s)"
      "timerFinished ((elapseSecond playOk ^^ nat totalSeconds) ?s) = Some True"
      by simp_all
    from rem before after
    show "secondsRemaining ?s = totalSeconds
           \<and> (\<forall>k < nat totalSeconds.
                 secondsRemaining ((elapseSecond playOk ^^ k) ?s) = totalSeconds - int k
               \<and> activeIntervals ((elapseSecond playOk ^^ k) ?s) \<noteq> []
               \<and> timerFinished ((elapseSecond playOk ^^ k) ?s) = Some False)
           \<and> secondsRemaining ((elapseSecond playOk ^^ nat totalSeconds) ?s) = 0
           \<and> activeIntervals ((elapseSecond playOk ^^ nat totalSeconds) ?s) = []
           \<and> timerSoundLoop ((elapseSecond playOk ^^ nat totalSeconds) ?s)
           \<and> timerFinished ((elapseSecond playOk ^^ nat totalSeconds) ?s) = Some True"
      by (intro conjI)
  qed
  have 3: "list_all isDigit v \<and> v \<noteq> [] \<and> int (digitsValue 0 v) \<le> maxSafeInteger \<longrightarrow>
            parseField v = int (digitsValue 0 v)"
    using parseField_digits [of v] by blast
  from parseField_parseInt [of "minutesValue st"] parseField_parseInt [of "secondsValue st"] 3 1 2
  show ?thesis by (intro conjI)
qed

theorem startTimer_total_witness:
  "(0::int) = parseField (minutesValue (timerIdleState\<lparr>minutesValue := ''0'', secondsValue := ''0''\<rparr>)) * 60
            + parseField (secondsValue (timerIdleState\<lparr>minutesValue := ''0'', secondsValue := ''0''\<rparr>))
   \<and> \<bar>parseField (minutesValue (timerIdleState\<lparr>minutesValue := ''0'', secondsValue := ''0''\<rparr>))\<bar> * 60
       + \<bar>parseField (secondsValue (timerIdleState\<lparr>minutesValue := ''0'', secondsValue := ''0''\<rparr>))\<bar>
       \<le> maxSafeInteger
   \<and> startTimer (timerIdleState\<lparr>minutesValue := ''0'', secondsValue := ''0''\<rparr>)
       = timerIdleState\<lparr>minutesValue := ''0'', secondsValue := ''0''\<rparr>
   \<and> (90::int) = parseField (minutesValue (timerIdleState\<lparr>minutesValue := ''1'', secondsValue := ''30''\<rparr>)) * 60
            + parseField (secondsValue (timerIdleState\<lparr>minutesValue := ''1'', secondsValue := ''30''\<rparr>))
   \<and> activeIntervals (timerIdleState\<lparr>minutesValue := ''1'', secondsValue := ''30''\<rparr>) = []
   \<and> timerFinished (timerIdleState\<lparr>minutesValue := ''1'', secondsValue := ''30''\<rparr>) = Some False
   \<and> \<bar>parseField (minutesValue (timerIdleState\<lparr>minutesValue := ''1'', secondsValue := ''30''\<rparr>))\<bar> * 60
       + \<bar>parseField (secondsValue (timerIdleState\<lparr>minutesValue := ''1'', secondsValue := ''30''\<rparr>))\<bar>
       \<le> maxSafeInteger
   \<and> secondsRemaining (startTimer (timerIdleState\<lparr>minutesValue := ''1'', secondsValue := ''30''\<rparr>)) = 90
   \<and> secondsRemaining ((elapseSecond True ^^ 89)
         (startTimer (timerIdleState\<lparr>minutesValue := ''1'', secondsValue := ''30''\<rparr>))) = 1
   \<and> timerFinished ((elapseSecond True ^^ 89)
         (startTimer (timerIdleState\<lparr>minutesValue := ''1'', secondsValue := ''30''\<rparr>))) = Some False
   \<and> secondsRemaining ((elapseSecond True ^^ 90)
         (startTimer (timerIdleState\<lparr>minutesValue := ''1'', secondsValue := ''30''\<rparr>))) = 0
   \<and> timerSoundLoop ((elapseSecond True ^^ 90)
         (startTimer (timerIdleState\<lparr>minutesValue := ''1'', secondsValue := ''30''\<rparr>)))
   \<and> timerFinished ((elapseSecond True ^^ 90)
         (startTimer (timerIdleState\<lparr>minutesValue := ''1'', secondsValue := ''30''\<rparr>))) = Some True"
proof -
  let ?s0 = "timerIdleState\<lparr>minutesValue := ''0'', secondsValue := ''0''\<rparr>"
  let ?s1 = "timerIdleState\<lparr>minutesValue := ''1'', secondsValue := ''30''\<rparr>"
  have h0: "(0::int) = parseField (minutesValue ?s0) * 60 + parseField (secondsValue ?s0)"
    by (simp add: parseField_examples)
  have h1: "(90::int) = parseField (minutesValue ?s1) * 60 + parseField (secondsValue ?s1)"
    by (simp add: parseField_examples)
  have a0: "activeIntervals ?s0 = []" and f0: "timerFinished ?s0 = Some False"
    and a1: "activeIntervals ?s1 = []" and f1: "timerFinished ?s1 = Some False"
    by (simp_all add: timerIdleState_def)
  have s0: "\<bar>parseField (minutesValue ?s0)\<bar> * 60 + \<bar>parseField (secondsValue ?s0)\<bar> \<le> maxSafeInteger"
    and s1: "\<bar>parseField (minutesValue ?s1)\<bar> * 60 + \<bar>parseField (secondsValue ?s1)\<bar> \<le> maxSafeInteger"
    by (simp_all add: parseField_examples maxSafeInteger_def)
  from startTimer_total [OF h0 a0 f0 s0, where v = "[]" and playOk = True]
  have "(0::int) \<le> 0 \<longrightarrow> startTimer ?s0 = ?s0" by (elim conjE)
  then have r0: "startTimer ?s0 = ?s0" by simp
  from startTimer_total [OF h1 a1 f1 s1, where v = "[]" and playOk = True]
  have "(0::int) < 90 \<longrightarrow>
             secondsRemaining (startTimer ?s1) = 90
           \<and> (\<forall>k < nat 90.
                 secondsRemaining ((elapseSecond True ^^ k) (startTimer ?s1)) = 90 - int k
               \<and> activeIntervals ((elapseSecond True ^^ k) (startTimer ?s1)) \<noteq> []
               \<and> timerFinished ((elapseSecond True ^^ k) (startTimer ?s1)) = Some False)
           \<and> secondsRemaining ((elapseSecond True ^^ nat 90) (startTimer ?s1)) = 0
           \<and> activeIntervals ((elapseSecond True ^^ nat 90) (startTimer ?s1)) = []
           \<and> timerSoundLoop ((elapseSecond True ^^ nat 90) (startTimer ?s1))
           \<and> timerFinished ((elapseSecond True ^^ nat 90) (startTimer ?s1)) = Some True"
    by (elim conjE)
  then have r1: "secondsRemaining (startTimer ?s1) = 90"
    and all: "\<forall>k < 90.
                 secondsRemaining ((elapseSecond True ^^ k) (startTimer ?s1)) = 90 - int k
               \<and> activeIntervals ((elapseSecond True ^^ k) (startTimer ?s1)) \<noteq> []
               \<and> timerFinished ((elapseSecond True ^^ k) (startTimer ?s1)) = Some False"
    and e: "secondsRemaining ((elapseSecond True ^^ 90) (startTimer ?s1)) = 0"
      "timerSoundLoop ((elapseSecond True ^^ 90) (startTimer ?s1))"
      "timerFinished ((elapseSecond True ^^ 90) (startTimer ?s1)) = Some True"
    by simp_all
  from all have "secondsRemaining ((elapseSecond True ^^ 89) (startTimer ?s1)) = 90 - int 89
      \<and> activeIntervals ((elapseSecond True ^^ 89) (startTimer ?s1)) \<noteq> []
      \<and> timerFinished ((elapseSecond True ^^ 89) (startTimer ?s1)) = Some False"
    by (rule allE [where x = 89]) simp
  then have b: "secondsRemaining ((elapseSecond True ^^ 89) (startTimer ?s1)) = 1"
    "timerFinished ((elapseSecond True ^^ 89) (startTimer ?s1)) = Some False"
    by simp_all
  from h0 s0 r0 h1 a1 f1 s1 r1 b e show ?thesis by (intro conjI)
qed

text \<open>The claim as first stated has each field parsed as a non-negative integer, anything
  else counting as 0. A field holding "-1" is read as \<open>-1\<close>: with "-1" minutes and "90"
  seconds the timer starts with 30 seconds, not with 90.\<close>

theorem startTimer_negative_counterexample:
  "parseField ''-1'' = - 1
   \<and> \<not> 0 \<le> parseField ''-1''
   \<and> secondsRemaining (startTimer (timerIdleState\<lparr>minutesValue := ''-1'', secondsValue := ''90''\<rparr>))
       = 30
   \<and> secondsRemaining (startTimer (timerIdleState\<lparr>minutesValue := ''-1'', secondsValue := ''90''\<rparr>))
       \<noteq> 0 * 60 + 90"
proof -
  let ?s = "timerIdleState\<lparr>minutesValue := ''-1'', secondsValue := ''90''\<rparr>"
  have 1: "parseField ''-1'' = - 1" by (rule parseField_examples)
  have p: "0 < parseField (minutesValue ?s) * 60 + parseField (secondsValue ?s)"
    by (simp add: parseField_examples)
  have 2: "secondsRemaining (startTimer ?s) = 30"
    by (simp add: startTimer_started(1) [OF p] parseField_examples)
  from 1 2 show ?thesis by simp
qed

lemma pauseTimer_halts:
  assumes "timerRunning st"
  shows "activeIntervals (pauseTimer st) = []" and "isPaused (pauseTimer st)"
    and "secondsRemaining (pauseTimer st) = secondsRemaining st"
    and "pauseTimerBtnText (pauseTimer st) = ''Resume''"
  using assms
  by (auto simp: timerRunning_def pauseTimer_def clearInterval_def split: option.splits)

lemma halted_frozen: "activeIntervals st = [] \<Longrightarrow> (elapseSecond playOk ^^ k) st = st"
  by (induction k) (simp_all add: elapseSecond_halted)

lemma pauseTimer_resumes:
  assumes "isPaused st" and "activeIntervals st = []" and "0 < secondsRemaining st"
  shows "timerRunning (pauseTimer st)" and "secondsRemaining (pauseTimer st) = secondsRemaining st"
    and "pauseTimerBtnText (pauseTimer st) = ''Pause''"
  using assms by (simp_all add: timerRunning_def pauseTimer_def Let_def)

text \<open>While Running, pausing halts the tick, the remaining time stays frozen however many
  seconds pass, and resuming restarts the tick from the same remaining time.\<close>

lemma pause_resume_preserves:
  assumes "timerRunning st"
  shows "secondsRemaining ((elapseSecond playOk ^^ k) (pauseTimer st)) = secondsRemaining st"
    and "secondsRemaining (pauseTimer ((elapseSecond playOk ^^ k) (pauseTimer st))) = secondsRemaining st"
    and "timerRunning (pauseTimer ((elapseSecond playOk ^^ k) (pauseTimer st)))"
proof -
  note h = pauseTimer_halts [OF assms]
  have fr: "(elapseSecond playOk ^^ k) (pauseTimer st) = pauseTimer st"
    by (rule halted_frozen [OF h(1)])
  have pos: "0 < secondsRemaining (pauseTimer st)"
    using assms h(3) by (simp add: timerRunning_def)
  show "secondsRemaining ((elapseSecond playOk ^^ k) (pauseTimer st)) = secondsRemaining st"
    by (simp add: fr h(3))
  show "secondsRemaining (pauseTimer ((elapseSecond playOk ^^ k) (pauseTimer st))) = secondsRemaining st"
    by (simp add: fr pauseTimer_resumes(2) [OF h(2) h(1) pos] h(3))
  show "timerRunning (pauseTimer ((elapseSecond playOk ^^ k) (pauseTimer st)))"
    by (simp add: fr pauseTimer_resumes(1) [OF h(2) h(1) pos])
qed

lemma timerFinishedState_eq:
  "timerFinishedState =
     \<lparr> timerIntervalId = Some 1, secondsRemaining = 0, isPaused = False,
       activeIntervals = [], lastIntervalId = 1,
       timerDisplay = ''00:00'', minutesValue = [], secondsValue = ''1'',
       minutesInputDisabled = True, secondsInputDisabled = True,
       startTimerBtnDisabled = True, pauseTimerBtnDisabled = False,
       resetTimerBtnDisabled = False, pauseTimerBtnText = ''Pause'',
       timerSoundPaused = False, timerSoundCurrentTime = 0, timerSoundLoop = True,
       timerFinished = Some True \<rparr>"
  by code_simp

text \<open>
  C6, at the input where the code departs from it. After one second was entered, started
  and has passed, the timer is Finished, yet the pause control is still enabled. A click
  on it is not a no-op: it sets the paused flag and relabels the control "Resume". A
  second click registers a new tick, and at the next second the remaining time goes to
  -1, the display to "-1:-1".
\<close>

theorem pauseTimer_when_finished:
  "secondsRemaining timerFinishedState = 0
   \<and> activeIntervals timerFinishedState = []
   \<and> timerFinished timerFinishedState = Some True
   \<and> \<not> pauseTimerBtnDisabled timerFinishedState
   \<and> timerStep True ClickPause timerFinishedState \<noteq> timerFinishedState
   \<and> isPaused (timerStep True ClickPause timerFinishedState)
   \<and> pauseTimerBtnText (timerStep True ClickPause timerFinishedState) = ''Resume''
   \<and> activeIntervals (timerRun True [ClickPause, ClickPause] timerFinishedState) = [2]
   \<and> secondsRemaining (timerRun True [ClickPause, ClickPause, SecondPasses] timerFinishedState) = - 1
   \<and> timerDisplay (timerRun True [ClickPause, ClickPause, SecondPasses] timerFinishedState) = ''-1:-1''"
proof -
  have 1: "secondsRemaining timerFinishedState = 0" "activeIntervals timerFinishedState = []"
    "timerFinished timerFinishedState = Some True" "\<not> pauseTimerBtnDisabled timerFinishedState"
    "\<not> isPaused timerFinishedState"
    by (simp_all add: timerFinishedState_eq)
  have 2: "isPaused (timerStep True ClickPause timerFinishedState)"
    "pauseTimerBtnText (timerStep True ClickPause timerFinishedState) = ''Resume''"
    by (simp_all add: timerStep_def pauseTimer_def 1)
  have 3: "timerStep True ClickPause timerFinishedState \<noteq> timerFinishedState"
  proof
    assume "timerStep True ClickPause timerFinishedState = timerFinishedState"
    then have "isPaused (timerStep True ClickPause timerFinishedState) = isPaused timerFinishedState"
      by simp
    with 1 2 show False by simp
  qed
  have 4: "activeIntervals (timerRun True [ClickPause, ClickPause] timerFinishedState) = [2]"
    "secondsRemaining (timerRun True [ClickPause, ClickPause, SecondPasses] timerFinishedState) = - 1"
    "timerDisplay (timerRun True [ClickPause, ClickPause, SecondPasses] timerFinishedState) = ''-1:-1''"
    by code_simp+
  from 1(1-4) 3 2 4 show ?thesis by (intro conjI)
qed


section \<open>Stopwatch: properties\<close>

lemma lapCounter_updateStopwatchDisplay:
  "lapCounter (updateStopwatchDisplay t st) = lapCounter st"
  by (simp add: updateStopwatchDisplay_def Let_def)

lemma lapCounter_handlePrimaryClick: "lapCounter (handlePrimaryClick t st) = lapCounter st"
  by (simp add: handlePrimaryClick_def Let_def)

lemma lapCounter_handleSecondaryClick:
  "lapCounter (handleSecondaryClick t st) = (if isRunning st then lapCounter st + 1 else 1)"
  by (simp add: handleSecondaryClick_def Let_def lapCounter_updateStopwatchDisplay)

lemma lapCounter_stopwatchStep:
  "lapCounter (stopwatchStep e st) =
     (if isReset e st then 1 else if isLap e st then lapCounter st + 1 else lapCounter st)"
  by (cases e)
     (simp_all add: stopwatchStep_def isReset_def isLap_def lapCounter_handlePrimaryClick
        lapCounter_handleSecondaryClick lapCounter_updateStopwatchDisplay)

lemma lapCounter_stopwatchRun:
  assumes "resetsIn es st = 0"
  shows "lapCounter (stopwatchRun es st) = lapCounter st + int (lapsIn es st)"
  using assms
proof (induction es arbitrary: st)
  case Nil
  then show ?case by simp
next
  case (Cons e es)
  from Cons.prems have nr: "\<not> isReset e st" and rest: "resetsIn es (stopwatchStep e st) = 0"
    by (simp_all split: if_splits)
  have "lapCounter (stopwatchRun (e # es) st)
          = lapCounter (stopwatchStep e st) + int (lapsIn es (stopwatchStep e st))"
    using Cons.IH [OF rest] by simp
  also have "lapCounter (stopwatchStep e st) = lapCounter st + (if isLap e st then 1 else 0)"
    using nr by (simp add: lapCounter_stopwatchStep)
  finally show ?case by simp
qed

lemma stop_start_isRunning:
  "isRunning (handlePrimaryClick t st) = (\<not> isRunning st)"
  by (simp add: handlePrimaryClick_def Let_def)

text \<open>
  C9. The lap counter changes in two ways only: a lap (the secondary control used while
  running) adds one to it, and a reset (the secondary control used while stopped) puts it
  back to 1. The primary control and the display refresh leave it alone, so a stop
  followed by a start keeps the count, and over any sequence of events without a reset
  the counter has grown by the number of laps taken.
\<close>

theorem lapCounter_changes:
  "lapCounter (handleSecondaryClick now st) = (if isRunning st then lapCounter st + 1 else 1)
   \<and> lapCounter (handlePrimaryClick now st) = lapCounter st
   \<and> lapCounter (handlePrimaryClick later (handlePrimaryClick now st)) = lapCounter st
   \<and> isRunning (handlePrimaryClick later (handlePrimaryClick now st)) = isRunning st
   \<and> lapCounter (updateStopwatchDisplay now st) = lapCounter st
   \<and> lapCounter (stopwatchStep e st) =
       (if isReset e st then 1 else if isLap e st then lapCounter st + 1 else lapCounter st)
   \<and> (resetsIn es st = 0 \<longrightarrow>
        lapCounter (stopwatchRun es st) = lapCounter st + int (lapsIn es st))"
  using lapCounter_stopwatchRun [of es st]
  by (simp add: lapCounter_handleSecondaryClick lapCounter_handlePrimaryClick
      lapCounter_updateStopwatchDisplay lapCounter_stopwatchStep stop_start_isRunning)

theorem lapCounter_changes_witness:
  "resetsIn [ClickPrimary 1000, ClickSecondary 2000, ClickSecondary 3000, ClickPrimary 4000,
             ClickPrimary 9000, ClickSecondary 9500] stopwatchInitial = 0
   \<and> lapsIn [ClickPrimary 1000, ClickSecondary 2000, ClickSecondary 3000, ClickPrimary 4000,
            ClickPrimary 9000, ClickSecondary 9500] stopwatchInitial = 3
   \<and> lapCounter (stopwatchRun [ClickPrimary 1000, ClickSecondary 2000, ClickSecondary 3000,
        ClickPrimary 4000, ClickPrimary 9000, ClickSecondary 9500] stopwatchInitial) = 4
   \<and> laps (stopwatchRun [ClickPrimary 1000, ClickSecondary 2000, ClickSecondary 3000,
        ClickPrimary 4000, ClickPrimary 9000, ClickSecondary 9500] stopwatchInitial)
       = [''<span>Lap 3</span><span>00:00:03.50</span>'',
          ''<span>Lap 2</span><span>00:00:02.00</span>'',
          ''<span>Lap 1</span><span>00:00:01.00</span>'']
   \<and> lapCounter (stopwatchRun [ClickPrimary 1000, ClickSecondary 2000, ClickPrimary 4000,
        ClickSecondary 5000] stopwatchInitial) = 1"
proof -
  let ?es = "[ClickPrimary 1000, ClickSecondary 2000, ClickSecondary 3000, ClickPrimary 4000,
             ClickPrimary 9000, ClickSecondary 9500]"
  have r: "resetsIn ?es stopwatchInitial = 0" by code_simp
  have l: "lapsIn ?es stopwatchInitial = 3" by code_simp
  have i: "lapCounter stopwatchInitial = 1" by (simp add: stopwatchInitial_def)
  from lapCounter_changes [of 0 stopwatchInitial 0 "Refresh 0" ?es]
  have "resetsIn ?es stopwatchInitial = 0 \<longrightarrow>
        lapCounter (stopwatchRun ?es stopwatchInitial)
          = lapCounter stopwatchInitial + int (lapsIn ?es stopwatchInitial)"
    by (elim conjE)
  with r have "lapCounter (stopwatchRun ?es stopwatchInitial)
          = lapCounter stopwatchInitial + int (lapsIn ?es stopwatchInitial)"
    by (rule rev_mp)
  then have c: "lapCounter (stopwatchRun ?es stopwatchInitial) = 4"
    by (simp only: l i)
  have m: "laps (stopwatchRun ?es stopwatchInitial)
       = [''<span>Lap 3</span><span>00:00:03.50</span>'',
          ''<span>Lap 2</span><span>00:00:02.00</span>'',
          ''<span>Lap 1</span><span>00:00:01.00</span>'']"
    by code_simp
  have z: "lapCounter (stopwatchRun [ClickPrimary 1000, ClickSecondary 2000, ClickPrimary 4000,
        ClickSecondary 5000] stopwatchInitial) = 1"
    by code_simp
  from r l c m z show ?thesis by (intro conjI)
qed


section \<open>Weather panel: properties\<close>

lemma getWeather_loaded: "dataLoaded st = Some True \<Longrightarrow> getWeather st = st"
  by (simp add: getWeather_def)

lemma observerCallback_loaded: "dataLoaded st = Some True \<Longrightarrow> observerCallback entries st = st"
  unfolding observerCallback_def
  by (induction entries) (simp_all add: getWeather_loaded)

lemma weatherStep_keeps_loaded:
  assumes "dataLoaded st = Some True"
  shows "dataLoaded (weatherStep e st) = Some True"
proof (cases e)
  case (Intersection entries)
  with assms show ?thesis by (simp add: weatherStep_def observerCallback_loaded)
next
  case (PositionFound lat lon)
  with assms show ?thesis by (simp add: weatherStep_def positionSuccess_def fetchWeatherBegin_def)
next
  case (PositionFailed msg)
  with assms show ?thesis by (simp add: weatherStep_def positionError_def)
next
  case (FetchEnded r)
  with assms show ?thesis
    by (cases r; cases "pendingFetches st")
       (simp_all add: weatherStep_def fetchWeatherEnd_def updateWeatherUI_def Let_def)
qed

lemma weatherRun_keeps_loaded:
  "dataLoaded st = Some True \<Longrightarrow> dataLoaded (weatherRun es st) = Some True"
  unfolding weatherRun_def
  by (induction es arbitrary: st) (simp_all add: weatherStep_keeps_loaded)

lemma weatherStep_settled:
  assumes "dataLoaded st = Some True" and "weatherQuiet st"
  shows "weatherStep e st = st"
  using assms
  by (cases e) (simp_all add: weatherStep_def weatherQuiet_def observerCallback_loaded)

lemma weatherRun_settled:
  assumes "dataLoaded st = Some True" and "weatherQuiet st"
  shows "weatherRun es st = st"
  unfolding weatherRun_def
  by (induction es) (simp_all add: weatherStep_settled [OF assms])

lemma fetch_success_loads:
  assumes "dataLoaded st = Some False" and "pendingFetches st \<noteq> []"
  shows "dataLoaded (weatherStep (FetchEnded (Body d)) st) = Some True"
  using assms
  by (cases "pendingFetches st")
     (simp_all add: weatherStep_def fetchWeatherEnd_def updateWeatherUI_def Let_def)

lemma failure_keeps_flag:
  "dataLoaded (weatherStep (PositionFailed msg) st) = dataLoaded st"
  "dataLoaded (weatherStep (FetchEnded (Rejected msg)) st) = dataLoaded st"
  "dataLoaded (weatherStep (FetchEnded (NotOk status)) st) = dataLoaded st"
  by (simp_all add: weatherStep_def positionError_def fetchWeatherEnd_def split: list.splits)

lemma visible_retries:
  assumes "dataLoaded st = Some False" and "hasGeolocation st"
  shows "locationRequests (weatherStep (Intersection [True]) st) = Suc (locationRequests st)"
  using assms by (simp add: weatherStep_def observerCallback_def getWeather_def)

text \<open>
  C4 (as amended). A rendered success sets the loaded flag, and no later event clears
  it; once it is set, the panel becoming visible again changes nothing, and with no
  request left in flight no sequence of events issues another location request or
  fetch. A refused location request and a failed fetch put their error message in the
  status line and leave the flag as it was. While the flag is not set, the panel becoming
  visible again starts the sequence anew: with geolocation available, the status line
  reads "Requesting location..." and a new location request is issued.
\<close>

theorem weather_loaded_once:
  assumes "dataLoaded st = Some True"
  shows "weatherStep (Intersection entries) st = st
       \<and> dataLoaded (weatherRun es st) = Some True
       \<and> (weatherQuiet st \<longrightarrow>
            locationRequests (weatherRun es st) = locationRequests st
          \<and> fetches (weatherRun es st) = fetches st
          \<and> weatherRun es st = st)
       \<and> (dataLoaded st' = Some False \<and> pendingFetches st' \<noteq> [] \<longrightarrow>
            dataLoaded (weatherStep (FetchEnded (Body d)) st') = Some True)
       \<and> dataLoaded (weatherStep (PositionFailed msg) st') = dataLoaded st'
       \<and> dataLoaded (weatherStep (FetchEnded (Rejected msg)) st') = dataLoaded st'
       \<and> dataLoaded (weatherStep (FetchEnded (NotOk status)) st') = dataLoaded st'
       \<and> (dataLoaded st' = Some False \<and> hasGeolocation st' \<longrightarrow>
            locationRequests (weatherStep (Intersection [True]) st') = Suc (locationRequests st'))
       \<and> (dataLoaded st' = Some False \<and> hasGeolocation st' \<longrightarrow>
            weatherStatus (weatherStep (Intersection [True]) st') = ''Requesting location...'')
       \<and> (pendingLocationRequests st' \<noteq> 0 \<longrightarrow>
            weatherStatus (weatherStep (PositionFailed msg) st')
              = ''Error: '' @ msg @ ''. Please enable location services.'')
       \<and> (pendingFetches st' \<noteq> [] \<longrightarrow>
            weatherStatus (weatherStep (FetchEnded (Rejected msg)) st') = ''Error: '' @ msg @ ''.'')
       \<and> (pendingFetches st' \<noteq> [] \<longrightarrow>
            weatherStatus (weatherStep (FetchEnded (NotOk status)) st')
              = ''Error: Weather data not available (HTTP '' @ toString status @ '').'')"
proof -
  have 1: "weatherStep (Intersection entries) st = st"
    using assms by (simp add: weatherStep_def observerCallback_loaded)
  have 2: "dataLoaded (weatherRun es st) = Some True"
    by (rule weatherRun_keeps_loaded [OF assms])
  have 3: "weatherQuiet st \<longrightarrow>
            locationRequests (weatherRun es st) = locationRequests st
          \<and> fetches (weatherRun es st) = fetches st
          \<and> weatherRun es st = st"
    using weatherRun_settled [OF assms, of es] by simp
  have 4: "dataLoaded st' = Some False \<and> pendingFetches st' \<noteq> [] \<longrightarrow>
            dataLoaded (weatherStep (FetchEnded (Body d)) st') = Some True"
    using fetch_success_loads [of st' d] by blast
  have 5: "dataLoaded st' = Some False \<and> hasGeolocation st' \<longrightarrow>
            locationRequests (weatherStep (Intersection [True]) st') = Suc (locationRequests st')"
    using visible_retries [of st'] by blast
  note 6 = failure_keeps_flag(1) [where msg = msg and st = st']
    and 7 = failure_keeps_flag(2) [where msg = msg and st = st']
    and 8 = failure_keeps_flag(3) [where status = status and st = st']
  have 9: "dataLoaded st' = Some False \<and> hasGeolocation st' \<longrightarrow>
            weatherStatus (weatherStep (Intersection [True]) st') = ''Requesting location...''"
    by (simp add: weatherStep_def observerCallback_def getWeather_def)
  have 10: "pendingLocationRequests st' \<noteq> 0 \<longrightarrow>
            weatherStatus (weatherStep (PositionFailed msg) st')
              = ''Error: '' @ msg @ ''. Please enable location services.''"
    by (simp add: weatherStep_def positionError_def)
  have 11: "pendingFetches st' \<noteq> [] \<longrightarrow>
            weatherStatus (weatherStep (FetchEnded (Rejected msg)) st') = ''Error: '' @ msg @ ''.''"
    by (cases "pendingFetches st'") (simp_all add: weatherStep_def fetchWeatherEnd_def)
  have 12: "pendingFetches st' \<noteq> [] \<longrightarrow>
            weatherStatus (weatherStep (FetchEnded (NotOk status)) st')
              = ''Error: Weather data not available (HTTP '' @ toString status @ '').''"
    by (cases "pendingFetches st'") (simp_all add: weatherStep_def fetchWeatherEnd_def)
  from 1 2 3 4 6 7 8 5 9 10 11 12 show ?thesis by (intro conjI)
qed

lemma weatherLoadedState_eq:
  "weatherLoadedState =
     \<lparr> dataLoaded = Some True, hasGeolocation = True,
       weatherStatus = ''Loading weather...'', weatherStatusHidden = True,
       weatherCardHidden = False,
       weatherCard = Some \<lparr> weatherCity = ''Paris'', weatherTemp = 19, weatherDesc = ''clear sky'',
                             weatherIconSrc = ''https://openweathermap.org/img/wn/01d@2x.png'',
                             weatherIconAlt = ''clear sky'' \<rparr>,
       pendingLocationRequests = 0, pendingFetches = [],
       locationRequests = 1, fetches = 1 \<rparr>"
  by (simp add: weatherLoadedState_def weatherRun_def weatherStep_def weatherInitial_def
      observerCallback_def getWeather_def positionSuccess_def fetchWeatherBegin_def
      fetchWeatherEnd_def updateWeatherUI_def mathRound_def Let_def)

lemma weatherDeniedState_eq:
  "weatherDeniedState =
     \<lparr> dataLoaded = Some False, hasGeolocation = True,
       weatherStatus = ''Error: User denied Geolocation. Please enable location services.'',
       weatherStatusHidden = False, weatherCardHidden = True, weatherCard = None,
       pendingLocationRequests = 0, pendingFetches = [],
       locationRequests = 1, fetches = 0 \<rparr>"
  by (simp add: weatherDeniedState_def weatherRun_def weatherStep_def weatherInitial_def
      observerCallback_def getWeather_def positionError_def Let_def)

lemma weatherHttpErrorState_eq:
  "weatherHttpErrorState =
     \<lparr> dataLoaded = Some False, hasGeolocation = True,
       weatherStatus = ''Error: Weather data not available (HTTP 500).'',
       weatherStatusHidden = False, weatherCardHidden = True, weatherCard = None,
       pendingLocationRequests = 0, pendingFetches = [],
       locationRequests = 1, fetches = 1 \<rparr>"
  by (simp add: weatherHttpErrorState_def weatherRun_def weatherStep_def weatherInitial_def
      observerCallback_def getWeather_def positionSuccess_def fetchWeatherBegin_def
      fetchWeatherEnd_def Let_def toString_def digitsOf.simps [of 500] digitsOf.simps [of 50]
      digitsOf.simps [of 5] digitChar_def)

theorem weather_loaded_once_witness:
  "dataLoaded weatherLoadedState = Some True
   \<and> weatherQuiet weatherLoadedState
   \<and> locationRequests weatherLoadedState = 1
   \<and> fetches weatherLoadedState = 1
   \<and> locationRequests
        (weatherRun [Intersection [False], Intersection [True], Intersection [True]] weatherLoadedState)
       = 1
   \<and> fetches
        (weatherRun [Intersection [False], Intersection [True], Intersection [True]] weatherLoadedState)
       = 1"
proof -
  let ?es = "[Intersection [False], Intersection [True], Intersection [True]]"
  have l: "dataLoaded weatherLoadedState = Some True"
    and q: "weatherQuiet weatherLoadedState"
    and n: "locationRequests weatherLoadedState = 1" "fetches weatherLoadedState = 1"
    by (simp_all add: weatherLoadedState_eq weatherQuiet_def)
  note t = weather_loaded_once [OF l, where es = ?es, THEN conjunct2, THEN conjunct2, THEN conjunct1]
  from t q have "locationRequests (weatherRun ?es weatherLoadedState) = locationRequests weatherLoadedState
          \<and> fetches (weatherRun ?es weatherLoadedState) = fetches weatherLoadedState
          \<and> weatherRun ?es weatherLoadedState = weatherLoadedState"
    by (rule mp)
  then have r: "locationRequests (weatherRun ?es weatherLoadedState) = 1"
    "fetches (weatherRun ?es weatherLoadedState) = 1"
    by (simp_all only: n)
  from l q n r show ?thesis by (intro conjI)
qed

text \<open>The claim as first stated has a completed sequence never run again, a failed one
  included. After the location request was refused, or after the weather service
  answered with an error status, nothing is pending and the flag is not set; the panel
  becoming visible once more issues a second location request, and a second fetch
  follows.\<close>

theorem weather_retry_counterexample:
  "weatherQuiet weatherDeniedState
   \<and> locationRequests weatherDeniedState = 1
   \<and> locationRequests (weatherStep (Intersection [True]) weatherDeniedState) = 2
   \<and> weatherQuiet weatherHttpErrorState
   \<and> locationRequests weatherHttpErrorState = 1
   \<and> fetches weatherHttpErrorState = 1
   \<and> locationRequests (weatherRun [Intersection [True], PositionFound 48 2] weatherHttpErrorState) = 2
   \<and> fetches (weatherRun [Intersection [True], PositionFound 48 2] weatherHttpErrorState) = 2"
  by (simp add: weatherDeniedState_eq weatherHttpErrorState_eq weatherQuiet_def weatherRun_def
      weatherStep_def observerCallback_def getWeather_def positionSuccess_def
      fetchWeatherBegin_def)

end
